theory Spec2Isabelle
  imports Complex_Main "HOL-Library.Sublist"
begin

section \<open>Solution generator service: tools, retry wrapper, response validation\<close>

text \<open>
  A shallow embedding of \<^verbatim>\<open>SolutionGeneratorService\<close>: its embedding cache and counter,
  the retry wrapper \<^verbatim>\<open>retryOperation\<close>, the three agent tools (\<^verbatim>\<open>generateEmbedding\<close>,
  \<^verbatim>\<open>vectorSearch\<close>, \<^verbatim>\<open>videoSearch\<close>), the entry point \<^verbatim>\<open>generate\<close> and the response
  validator \<^verbatim>\<open>validateAndTransformResponse\<close> with the decorators of \<^verbatim>\<open>SolutionOutputDto\<close>.

  Conventions of the model:
  \<^item> a JavaScript string is a \<^typ>\<open>string\<close>; its \<^verbatim>\<open>length\<close> is the length of the list;
  \<^item> a \<^verbatim>\<open>number\<close> that counts something (a limit, a page, an attempt, a delay in
    milliseconds) is an \<^typ>\<open>int\<close> or a \<^typ>\<open>nat\<close>; a score, a vector component, the value of
    \<^verbatim>\<open>Math.random()\<close> and a number of a parsed JSON document are \<^typ>\<open>real\<close>;
  \<^item> a promise that rejects, and a \<^verbatim>\<open>throw\<close>, is the left injection of a sum;
  \<^item> what the embedding provider, the PostgreSQL store, the agent in each iteration of
    its executor, the image processor and \<^verbatim>\<open>JSON.parse\<close> answer is given by the fields of a
    record or by a parameter: any behaviour of these collaborators is some value of it;
  \<^item> the message of an error that the JavaScript engine or class-validator raises (reading
    a property of \<^verbatim>\<open>null\<close>, a failed decorator) is the one V8 and the defaults of
    class-validator produce;
  \<^item> one request is served at a time; logging is left out; of the timers, the ones the
    service awaits are kept (the fixed delay of a search tool, the delays of the retry
    wrapper), the ones it races against (the 20 and 120 second limits) are part of what the
    collaborators answer.
\<close>

subsection \<open>Thrown values\<close>

text \<open>
  A thrown value is an error object with its message, or one of the two values that have
  no properties, \<^verbatim>\<open>undefined\<close> and \<^verbatim>\<open>null\<close>. The retry wrapper throws its local
  \<^verbatim>\<open>lastError\<close>, which is \<^verbatim>\<open>undefined\<close> when the loop body never ran. Other thrown
  values (a string, a number) are left out: no collaborator of the service is taken to
  throw them, and a catch block reads their \<^verbatim>\<open>message\<close> without failing.
\<close>

datatype exn =
    Undefined
  | Null
  | Error string
  | TypeError string
  | SyntaxError string
  | LLMGenerationError string

text \<open>
  Reading \<^verbatim>\<open>error.message\<close> in a catch block; on \<^verbatim>\<open>undefined\<close> and on \<^verbatim>\<open>null\<close> the read
  itself throws.
\<close>

fun message_of :: "exn \<Rightarrow> exn + string" where
  "message_of Undefined = Inl (TypeError ''Cannot read properties of undefined (reading 'message')'')"
| "message_of Null = Inl (TypeError ''Cannot read properties of null (reading 'message')'')"
| "message_of (Error m) = Inr m"
| "message_of (TypeError m) = Inr m"
| "message_of (SyntaxError m) = Inr m"
| "message_of (LLMGenerationError m) = Inr m"

subsection \<open>Strings and numbers\<close>

text \<open>The decimal digits of a non-negative whole number, as a template literal prints it.\<close>

fun show_nat :: "nat \<Rightarrow> string" where
  "show_nat n =
     (if n < 10 then [''0123456789'' ! n]
      else show_nat (n div 10) @ [''0123456789'' ! (n mod 10)])"

declare show_nat.simps [simp del]

definition show_int :: "int \<Rightarrow> string" where
  "show_int i = (if i < 0 then CHR ''-'' # show_nat (nat (- i)) else show_nat (nat i))"

text \<open>\<^verbatim>\<open>Array.prototype.join\<close> on an array of strings.\<close>

fun join :: "string \<Rightarrow> string list \<Rightarrow> string" where
  "join sep [] = []"
| "join sep [x] = x"
| "join sep (x # y # ys) = x @ sep @ join sep (y # ys)"

text \<open>
  The white space and line terminators that \<^verbatim>\<open>String.prototype.trim\<close> strips, among the
  code units below 256: tab, line feed, vertical tab, form feed, carriage return, space and
  the no-break space.
\<close>

definition is_white_space :: "char \<Rightarrow> bool" where
  "is_white_space c = (of_char c \<in> {9, 10, 11, 12, 13, 32, 160 :: nat})"

definition trim :: "string \<Rightarrow> string" where
  "trim s = rev (dropWhile is_white_space (rev (dropWhile is_white_space s)))"

text \<open>\<^verbatim>\<open>String.prototype.includes\<close>.\<close>

definition str_includes :: "string \<Rightarrow> string \<Rightarrow> bool" where
  "str_includes s needle = sublist needle s"

text \<open>\<^verbatim>\<open>indexOf\<close> and \<^verbatim>\<open>lastIndexOf\<close> of a single character; \<open>None\<close> is the result \<open>-1\<close>.\<close>

fun indexOf :: "string \<Rightarrow> char \<Rightarrow> nat option" where
  "indexOf [] c = None"
| "indexOf (x # xs) c = (if x = c then Some 0 else map_option Suc (indexOf xs c))"

definition lastIndexOf :: "string \<Rightarrow> char \<Rightarrow> nat option" where
  "lastIndexOf s c = map_option (\<lambda>i. length s - 1 - i) (indexOf (rev s) c)"

text \<open>\<^verbatim>\<open>s.substring(i, j)\<close> for \<open>i \<le> j\<close>.\<close>

definition substring :: "string \<Rightarrow> nat \<Rightarrow> nat \<Rightarrow> string" where
  "substring s i j = take (j - i) (drop i s)"

subsection \<open>The retry wrapper\<close>

text \<open>
  \<^verbatim>\<open>retryOperation(operation, operationName, maxRetries, baseDelay)\<close>. The operation is a
  closure that is awaited once per attempt: \<open>operation k s\<close> is what its \<open>k\<close>-th run does in
  state \<open>s\<close>, its result or the value it throws, and the state it leaves. \<open>random k\<close> is the
  value of \<^verbatim>\<open>Math.random()\<close> drawn after the \<open>k\<close>-th failure. The wrapper's own effects are
  returned as a list, in order: \<open>Attempt k\<close> when it awaits the operation for the \<open>k\<close>-th time,
  \<open>Waiting d\<close> when it awaits a timer of \<open>d\<close> milliseconds.

  The catch block of the loop first assigns \<^verbatim>\<open>lastError\<close> and then reads
  \<^verbatim>\<open>error.message\<close>; when the value caught is \<^verbatim>\<open>undefined\<close> or \<^verbatim>\<open>null\<close>, that read throws
  a \<^verbatim>\<open>TypeError\<close> out of the wrapper, after this attempt, with no delay and no further
  attempt.

  At every call site \<^verbatim>\<open>maxRetries\<close> and \<^verbatim>\<open>baseDelay\<close> are whole, non-negative literals
  (5 and 2000, 3 and 1000); they are natural numbers here. The delay is computed in exact
  arithmetic; the engine computes the same expression in double precision, where the
  rounded product can fall just below a whole number that the exact product reaches (base
  delay 2000, attempt 3, random value 1/32: 8075 here, 8074 in doubles).
\<close>

datatype retry_event = Attempt nat | Waiting int

definition backoff_delay :: "nat \<Rightarrow> nat \<Rightarrow> real \<Rightarrow> int" where
  "backoff_delay baseDelay attempt r =
     (let jitter = r * 0.3
      in \<lfloor>real baseDelay * 2 ^ (attempt - 1) * (1 + jitter)\<rfloor>)"

function retry_loop ::
  "(nat \<Rightarrow> 's \<Rightarrow> (exn + 'a) \<times> 's) \<Rightarrow> nat \<Rightarrow> nat \<Rightarrow> (nat \<Rightarrow> real) \<Rightarrow>
   nat \<Rightarrow> exn \<Rightarrow> 's \<Rightarrow> (exn + 'a) \<times> 's \<times> retry_event list" where
  "retry_loop operation maxRetries baseDelay random attempt lastError s =
     (if attempt \<le> maxRetries then
        (case operation attempt s of
           (Inr result, s') \<Rightarrow> (Inr result, s', [Attempt attempt])
         | (Inl error, s') \<Rightarrow>
             (case message_of error of
                Inl typeError \<Rightarrow> (Inl typeError, s', [Attempt attempt])
              | Inr errorMessage \<Rightarrow>
                  if attempt = maxRetries then (Inl error, s', [Attempt attempt])
                  else
                    (let delay = backoff_delay baseDelay attempt (random attempt);
                         (r, s'', events) =
                            retry_loop operation maxRetries baseDelay random (attempt + 1) error s'
                     in (r, s'', Attempt attempt # Waiting delay # events))))
      else (Inl lastError, s, []))"
  by pat_completeness auto
termination
  by (relation "measure (\<lambda>(operation, maxRetries, baseDelay, random, attempt, lastError, s).
        maxRetries + 1 - attempt)") auto

declare retry_loop.simps [simp del]

definition retryOperation ::
  "(nat \<Rightarrow> 's \<Rightarrow> (exn + 'a) \<times> 's) \<Rightarrow> string \<Rightarrow> nat \<Rightarrow> nat \<Rightarrow> (nat \<Rightarrow> real) \<Rightarrow> 's \<Rightarrow>
   (exn + 'a) \<times> 's \<times> retry_event list" where
  "retryOperation operation operationName maxRetries baseDelay random s =
     retry_loop operation maxRetries baseDelay random 1 Undefined s"

text \<open>Reading a run of the wrapper: the attempts it made and the delays it waited, in order.\<close>

fun attempts :: "retry_event list \<Rightarrow> nat list" where
  "attempts [] = []"
| "attempts (Attempt k # es) = k # attempts es"
| "attempts (Waiting d # es) = attempts es"


text \<open>
  The state in which the \<open>k\<close>-th attempt starts when every earlier attempt was made, and what
  that attempt then yields.
\<close>

fun state_before :: "(nat \<Rightarrow> 's \<Rightarrow> (exn + 'a) \<times> 's) \<Rightarrow> 's \<Rightarrow> nat \<Rightarrow> 's" where
  "state_before operation s 0 = s"
| "state_before operation s (Suc 0) = s"
| "state_before operation s (Suc (Suc k)) =
     snd (operation (Suc k) (state_before operation s (Suc k)))"

definition attempt_outcome :: "(nat \<Rightarrow> 's \<Rightarrow> (exn + 'a) \<times> 's) \<Rightarrow> 's \<Rightarrow> nat \<Rightarrow> exn + 'a" where
  "attempt_outcome operation s k = fst (operation k (state_before operation s k))"

subsection \<open>The service state and its collaborators\<close>

text \<open>
  The two mutable fields of the service, \<^verbatim>\<open>embeddingCache\<close> (a \<^verbatim>\<open>Map<string, number[]>\<close>)
  and \<^verbatim>\<open>embeddingCounter\<close>, and a history of what the service did to the outside and to its
  cache: the requests it sent to the embedding provider (with the dimensions of the model
  asked), the statements it sent to the store (with the vector and the limit bound to them),
  and the resets of the cache. A second history, \<open>activity\<close>, holds the timers the service
  awaited and the attempts of the retry wrapper, in order: a tool appends the fixed delay it
  waits and the events of the run of the wrapper it starts.
\<close>

type_synonym vector = "real list"

datatype effect =
    EmbedQuery nat string
  | MatchDocuments vector int
  | VideoRecordings vector int
  | CacheClear

record service =
  embeddingCache :: "string \<rightharpoonup> vector"
  embeddingCounter :: nat
  effects :: "effect list"
  activity :: "retry_event list"

text \<open>
  A row of \<^verbatim>\<open>match_documents\<close>. A column that is SQL \<^verbatim>\<open>NULL\<close> is \<open>None\<close>; the \<^verbatim>\<open>metadata\<close>
  column arrives as an object, as text still to be parsed, or as \<^verbatim>\<open>null\<close>.
\<close>

record metadata =
  book :: "string option"
  book_title :: "string option"
  book_id :: "string option"
  chapter_title :: "string option"
  page_number :: "int option"
  page_start :: "int option"
  page_end :: "int option"
  paragraph_number :: "int option"

datatype metadata_column = MetadataObject metadata | MetadataText string | MetadataNull

record document_row =
  row_id :: "string option"
  row_content :: "string option"
  row_metadata :: metadata_column
  row_score :: "real option"

text \<open>A row of \<^verbatim>\<open>video_recordings\<close> with the computed \<^verbatim>\<open>score\<close>.\<close>

record video_row =
  row_video_id :: string
  row_time_start :: string
  row_time_end :: string
  row_video_content :: "string option"
  row_transcript :: "string option"
  row_video_score :: "real option"

text \<open>
  What one round trip to the store yields: \<^verbatim>\<open>pgPool.connect()\<close> rejects, or the query
  rejects or loses the race against the 20 second timer, or the query resolves with rows.
  The string is the \<^verbatim>\<open>message\<close> of the error caught.
\<close>

datatype 'row reply = ConnectFailed string | QueryFailed string | Rows "'row list"

text \<open>
  The collaborators during one tool invocation. The first argument of a provider or store
  field is the attempt of the retry wrapper in which it is asked. When both embedding
  requests of an attempt reject, \<open>videoEmbeddings_rejects_first\<close> tells which rejection
  arrives first.
\<close>

record world =
  Math_random :: "nat \<Rightarrow> real"
  embeddings_embedQuery :: "nat \<Rightarrow> string \<Rightarrow> exn + vector"
  videoEmbeddings_embedQuery :: "nat \<Rightarrow> string \<Rightarrow> exn + vector"
  videoEmbeddings_rejects_first :: "nat \<Rightarrow> bool"
  match_documents :: "nat \<Rightarrow> vector \<Rightarrow> int \<Rightarrow> document_row reply"
  video_recordings :: "nat \<Rightarrow> vector \<Rightarrow> int \<Rightarrow> video_row reply"
  JSON_parse_metadata :: "string \<Rightarrow> exn + metadata option"
  toFixed3 :: "real \<Rightarrow> string"

text \<open>\<^verbatim>\<open>clearEmbeddingCache\<close>.\<close>

definition clearEmbeddingCache :: "service \<Rightarrow> service" where
  "clearEmbeddingCache s =
     s\<lparr>embeddingCache := Map.empty, embeddingCounter := 0, effects := effects s @ [CacheClear]\<rparr>"

text \<open>\<^verbatim>\<open>truncateContent\<close>; the empty string is the falsy content.\<close>

definition truncateContent :: "string \<Rightarrow> nat \<Rightarrow> string" where
  "truncateContent content maxLength =
     (if content = [] \<or> length content \<le> maxLength then content
      else substring content 0 maxLength @ ''...'')"

text \<open>The operator \<^verbatim>\<open>||\<close> on a string or a number that may be missing.\<close>

definition str_or :: "string option \<Rightarrow> string \<Rightarrow> string" where
  "str_or a b = (case a of None \<Rightarrow> b | Some x \<Rightarrow> if x = [] then b else x)"

definition int_or :: "int option \<Rightarrow> int \<Rightarrow> int" where
  "int_or a b = (case a of None \<Rightarrow> b | Some x \<Rightarrow> if x = 0 then b else x)"

definition real_or :: "real option \<Rightarrow> real \<Rightarrow> real" where
  "real_or a b = (case a of None \<Rightarrow> b | Some x \<Rightarrow> if x = 0 then b else x)"

text \<open>A \<^verbatim>\<open>map\<close> whose callback may throw stops at the first element that throws.\<close>

fun map_throwing :: "('a \<Rightarrow> exn + 'b) \<Rightarrow> 'a list \<Rightarrow> exn + 'b list" where
  "map_throwing f [] = Inr []"
| "map_throwing f (x # xs) =
     (case f x of
        Inl e \<Rightarrow> Inl e
      | Inr y \<Rightarrow> (case map_throwing f xs of Inl e \<Rightarrow> Inl e | Inr ys \<Rightarrow> Inr (y # ys)))"

text \<open>An array paired with its indices, for a callback \<^verbatim>\<open>(element, index) => ...\<close>.\<close>

definition indexed :: "'a list \<Rightarrow> ('a \<times> nat) list" where
  "indexed xs = zip xs [0 ..< length xs]"

subsection \<open>The generateEmbedding tool\<close>

record dimensions =
  dim_books :: nat
  dim_videos :: nat

record embedding_info =
  info_embeddingId :: string
  info_dimensions :: dimensions
  info_message :: string

text \<open>
  The closure passed to the retry wrapper. Both requests are started, then joined with
  \<^verbatim>\<open>Promise.all\<close>, which rejects with the rejection that arrives first.
\<close>

definition generateEmbedding_operation ::
  "world \<Rightarrow> string \<Rightarrow> nat \<Rightarrow> service \<Rightarrow> (exn + embedding_info) \<times> service" where
  "generateEmbedding_operation w text attempt s =
     (let s1 = s\<lparr>effects := effects s @ [EmbedQuery 3072 text, EmbedQuery 1536 text]\<rparr>
      in case embeddings_embedQuery w attempt text of
           Inl e3072 \<Rightarrow>
             (case videoEmbeddings_embedQuery w attempt text of
                Inl e1536 \<Rightarrow>
                  (Inl (if videoEmbeddings_rejects_first w attempt then e1536 else e3072), s1)
              | Inr embedding1536 \<Rightarrow> (Inl e3072, s1))
         | Inr embedding3072 \<Rightarrow>
             (case videoEmbeddings_embedQuery w attempt text of
                Inl e1536 \<Rightarrow> (Inl e1536, s1)
              | Inr embedding1536 \<Rightarrow>
                  (let s2 = s1\<lparr>embeddingCounter := embeddingCounter s1 + 1\<rparr>;
                       embeddingId = ''emb_'' @ show_nat (embeddingCounter s2);
                       s3 = s2\<lparr>embeddingCache :=
                               (embeddingCache s2)(embeddingId @ ''_3072'' \<mapsto> embedding3072)\<rparr>;
                       s4 = s3\<lparr>embeddingCache :=
                               (embeddingCache s3)(embeddingId @ ''_1536'' \<mapsto> embedding1536)\<rparr>
                   in (Inr \<lparr>info_embeddingId = embeddingId,
                             info_dimensions = \<lparr>dim_books = length embedding3072,
                                                dim_videos = length embedding1536\<rparr>,
                             info_message = ''Dual embeddings generated and cached as '' @ embeddingId
                               @ '': '' @ show_nat (length embedding3072) @ ''D for books, ''
                               @ show_nat (length embedding1536) @ ''D for videos''\<rparr>,
                       s4))))"

definition generateEmbedding :: "world \<Rightarrow> string \<Rightarrow> service \<Rightarrow> (exn + embedding_info) \<times> service" where
  "generateEmbedding w text s =
     (let (r, s', events) =
            retryOperation (generateEmbedding_operation w text)
              (''Embedding Generation ('' @ substring text 0 30 @ ''...)'') 5 2000 (Math_random w) s
      in (r, s'\<lparr>activity := activity s' @ events\<rparr>))"

subsection \<open>The vectorSearch tool\<close>

record VectorSearchResult =
  result_id :: string
  content :: string
  metadata :: "metadata option"
  score :: real

record source =
  source_book :: string
  source_chapter :: string
  source_page_number :: int
  source_paragraph_number :: int

record FormattedResult =
  index :: nat
  formatted_content :: string
  source :: source
  similarity :: real

text \<open>The callback of \<^verbatim>\<open>rows.map\<close> that builds \<^verbatim>\<open>results\<close>; \<^verbatim>\<open>JSON.parse\<close> may throw.\<close>

definition result_of_row :: "world \<Rightarrow> document_row \<Rightarrow> exn + VectorSearchResult" where
  "result_of_row w row =
     (case (case row_metadata row of
              MetadataText t \<Rightarrow> JSON_parse_metadata w t
            | MetadataObject m \<Rightarrow> Inr (Some m)
            | MetadataNull \<Rightarrow> Inr None) of
        Inl e \<Rightarrow> Inl e
      | Inr m \<Rightarrow>
          Inr \<lparr>result_id = str_or (row_id row) ''unknown'',
               content = str_or (row_content row) [],
               metadata = m,
               score = real_or (row_score row) 0\<rparr>)"

text \<open>
  The callback that builds \<^verbatim>\<open>formattedResults\<close>. Reading a property of a \<^verbatim>\<open>null\<close>
  metadata throws.
\<close>

definition formatted_result :: "VectorSearchResult \<times> nat \<Rightarrow> exn + FormattedResult" where
  "formatted_result = (\<lambda>(result, i).
     case metadata result of
       None \<Rightarrow> Inl (TypeError ''Cannot read properties of null (reading 'book_title')'')
     | Some m \<Rightarrow>
         Inr \<lparr>index = i + 1,
              formatted_content = truncateContent (content result) 500,
              source =
                \<lparr>source_book = str_or (book_title m) (str_or (book m) ''Unknown''),
                 source_chapter = str_or (chapter_title m)
                    (''Page '' @ show_int (int_or (page_start m) (int_or (page_number m) 0))),
                 source_page_number = int_or (page_start m) (int_or (page_number m) 0),
                 source_paragraph_number = int_or (paragraph_number m) 1\<rparr>,
              similarity = score result\<rparr>)"

text \<open>The callback of \<^verbatim>\<open>results.map\<close> inside the template of \<^verbatim>\<open>toolResponse\<close>.\<close>

definition document_text :: "world \<Rightarrow> VectorSearchResult \<times> nat \<Rightarrow> exn + string" where
  \<open>document_text w = (\<lambda>(result, i).
     case metadata result of
       None \<Rightarrow> Inl (TypeError ''Cannot read properties of null (reading 'book_title')'')
     | Some m \<Rightarrow>
         Inr (show_nat (i + 1) @ ''. [Score: '' @ toFixed3 w (score result) @ '']\<newline>''
           @ ''  Book: "'' @ str_or (book_title m) (str_or (book m) ''Unknown'') @ ''" \<newline>''
           @ ''  Book ID: "'' @ str_or (book_id m) ''unknown'' @ ''"\<newline>''
           @ ''  Pages: '' @ show_int (int_or (page_start m) (int_or (page_number m) 0))
           @ '' - '' @ show_int (int_or (page_end m) (int_or (page_number m) 0)) @ ''\<newline>''
           @ ''  \<newline>''
           @ ''  **FULL CONTENT:**\<newline>''
           @ ''  '' @ content result @ ''\<newline>''
           @ ''  \<newline>''
           @ ''  **Reference to include in JSON:** \<newline>''
           @ ''  {\<newline>''
           @ ''    "book_title": "'' @ str_or (book_title m) (str_or (book m) ''Unknown'')
           @ ''",\<newline>''
           @ ''    "book_id": "'' @ str_or (book_id m) ''unknown'' @ ''",\<newline>''
           @ ''    "page_start": '' @ show_int (int_or (page_start m) (int_or (page_number m) 0))
           @ '',\<newline>''
           @ ''    "page_end": '' @ show_int (int_or (page_end m) (int_or (page_number m) 0))
           @ ''\<newline>''
           @ ''  }''))\<close>

definition toolResponse :: "nat \<Rightarrow> string list \<Rightarrow> string" where
  \<open>toolResponse n texts =
     ''Found '' @ show_nat n @ '' relevant textbook documents. **IMPORTANT: Use this source information for your "references" field in the JSON output.**\<newline>''
     @ ''\<newline>''
     @ join ''\<newline>\<newline>'' texts @ ''\<newline>''
     @ ''\<newline>''
     @ ''**CRITICAL: Include ALL these references in your JSON output "references" array using the exact format shown above.**''\<close>

text \<open>
  What the tool does with the rows of the store: \<^verbatim>\<open>results\<close>, then \<^verbatim>\<open>formattedResults\<close>,
  then the text returned, which is built from \<^verbatim>\<open>results\<close>.
\<close>

definition vectorSearch_respond :: "world \<Rightarrow> document_row list \<Rightarrow> exn + string" where
  "vectorSearch_respond w rows =
     (case map_throwing (result_of_row w) rows of
        Inl e \<Rightarrow> Inl e
      | Inr results \<Rightarrow>
          (case map_throwing formatted_result (indexed results) of
             Inl e \<Rightarrow> Inl e
           | Inr formattedResults \<Rightarrow>
               (case map_throwing (document_text w) (indexed results) of
                  Inl e \<Rightarrow> Inl e
                | Inr texts \<Rightarrow> Inr (toolResponse (length results) texts))))"

text \<open>The closure passed to the retry wrapper: one round trip to \<^verbatim>\<open>match_documents\<close>.\<close>

definition vectorSearch_operation ::
  "world \<Rightarrow> vector \<Rightarrow> int \<Rightarrow> nat \<Rightarrow> service \<Rightarrow> (exn + document_row list) \<times> service" where
  "vectorSearch_operation w embedding cappedLimit attempt s =
     (case match_documents w attempt embedding cappedLimit of
        ConnectFailed m \<Rightarrow>
          (Inl (Error (''Vector search unavailable: '' @ m
             @ ''. Please check PostgreSQL connection and database status.'')), s)
      | QueryFailed m \<Rightarrow>
          (Inl (Error (''Vector search unavailable: '' @ m
             @ ''. Please check PostgreSQL connection and database status.'')),
           s\<lparr>effects := effects s @ [MatchDocuments embedding cappedLimit]\<rparr>)
      | Rows rows \<Rightarrow>
          (Inr rows, s\<lparr>effects := effects s @ [MatchDocuments embedding cappedLimit]\<rparr>))"

text \<open>
  The body of the \<^verbatim>\<open>try\<close> block: the cache is read, then the tool waits 500 milliseconds,
  then it starts the retry wrapper.
\<close>

definition vectorSearch_try :: "world \<Rightarrow> string \<Rightarrow> int \<Rightarrow> service \<Rightarrow> (exn + string) \<times> service" where
  "vectorSearch_try w embeddingId limit s =
     (case embeddingCache s (embeddingId @ ''_3072'') of
        None \<Rightarrow> (Inl (Error (''3072D embedding not found in cache for ID: '' @ embeddingId)), s)
      | Some embedding \<Rightarrow>
          (let cappedLimit = min limit 4;
               s0 = s\<lparr>activity := activity s @ [Waiting 500]\<rparr>;
               (r, s', events) =
                  retryOperation (vectorSearch_operation w embedding cappedLimit)
                    (''Vector Search for '' @ embeddingId) 5 2000 (Math_random w) s0;
               s'' = s'\<lparr>activity := activity s' @ events\<rparr>
           in case r of
                Inl e \<Rightarrow> (Inl e, s'')
              | Inr rows \<Rightarrow> (vectorSearch_respond w rows, s'')))"

text \<open>The tool: the argument \<^verbatim>\<open>limit\<close> defaults to 3; the \<^verbatim>\<open>catch\<close> block throws again.\<close>

definition vectorSearch :: "world \<Rightarrow> string \<Rightarrow> int option \<Rightarrow> service \<Rightarrow> (exn + string) \<times> service" where
  "vectorSearch w embeddingId limit_arg s =
     (let limit = (case limit_arg of None \<Rightarrow> 3 | Some l \<Rightarrow> l)
      in case vectorSearch_try w embeddingId limit s of
           (Inr response, s') \<Rightarrow> (Inr response, s')
         | (Inl error, s') \<Rightarrow>
             (case message_of error of
                Inl e \<Rightarrow> (Inl e, s')
              | Inr m \<Rightarrow>
                  (Inl (Error (''Vector search tool failed: '' @ m
                     @ ''. Please check PostgreSQL connection and database status.'')), s')))"

subsection \<open>The videoSearch tool\<close>

record VideoResult =
  video_id :: string
  time_start :: string
  time_end :: string
  video_content :: string
  video_score :: "real option"

definition video_of_row :: "video_row \<Rightarrow> VideoResult" where
  "video_of_row row =
     \<lparr>video_id = row_video_id row,
      time_start = row_time_start row,
      time_end = row_time_end row,
      video_content = str_or (row_video_content row) (str_or (row_transcript row) []),
      video_score = row_video_score row\<rparr>"

text \<open>
  The callback of \<^verbatim>\<open>videos.map\<close> inside the template of \<^verbatim>\<open>videoToolResponse\<close>; calling
  \<^verbatim>\<open>toFixed\<close> on a \<^verbatim>\<open>null\<close> score throws.
\<close>

definition video_text :: "world \<Rightarrow> VideoResult \<times> nat \<Rightarrow> exn + string" where
  \<open>video_text w = (\<lambda>(video, i).
     case video_score video of
       None \<Rightarrow> Inl (TypeError ''Cannot read properties of null (reading 'toFixed')'')
     | Some sc \<Rightarrow>
         Inr (show_nat (i + 1) @ ''. [Score: '' @ toFixed3 w sc @ '']\<newline>''
           @ ''  Video ID: '' @ video_id video @ ''\<newline>''
           @ ''  Time Range: '' @ time_start video @ '' - '' @ time_end video @ ''\<newline>''
           @ ''  \<newline>''
           @ ''  **FULL VIDEO CONTENT/TRANSCRIPT:**\<newline>''
           @ ''  '' @ video_content video @ ''\<newline>''
           @ ''  \<newline>''
           @ ''  **Video Reference to include in JSON:**\<newline>''
           @ ''  {\<newline>''
           @ ''    "video_id": "'' @ video_id video @ ''",\<newline>''
           @ ''    "time_start": "'' @ time_start video @ ''",\<newline>''
           @ ''    "time_end": "'' @ time_end video @ ''"\<newline>''
           @ ''  }''))\<close>

definition videoToolResponse :: "nat \<Rightarrow> string list \<Rightarrow> string" where
  \<open>videoToolResponse n texts =
     ''Found '' @ show_nat n @ '' relevant video content. **IMPORTANT: Use this video information for your "video_references" field in the JSON output.**\<newline>''
     @ ''\<newline>''
     @ join ''\<newline>\<newline>'' texts @ ''\<newline>''
     @ ''\<newline>''
     @ ''**CRITICAL: Include ALL these video references in your JSON output "video_references" array. This is required for proper video citation.**''\<close>

definition no_videos_found :: string where
  "no_videos_found =
     ''No relevant videos found. The video database may be empty or the search terms may be too specific.''"

text \<open>The closure passed to the retry wrapper: one round trip to \<^verbatim>\<open>video_recordings\<close>.\<close>

definition videoSearch_operation ::
  "world \<Rightarrow> vector \<Rightarrow> int \<Rightarrow> nat \<Rightarrow> service \<Rightarrow> (exn + VideoResult list) \<times> service" where
  "videoSearch_operation w embedding limit attempt s =
     (case video_recordings w attempt embedding limit of
        ConnectFailed m \<Rightarrow>
          (Inl (Error (''Video search unavailable: '' @ m
             @ ''. Please check PostgreSQL connection and database status.'')), s)
      | QueryFailed m \<Rightarrow>
          (Inl (Error (''Video search unavailable: '' @ m
             @ ''. Please check PostgreSQL connection and database status.'')),
           s\<lparr>effects := effects s @ [VideoRecordings embedding limit]\<rparr>)
      | Rows rows \<Rightarrow>
          (Inr (map video_of_row rows),
           s\<lparr>effects := effects s @ [VideoRecordings embedding limit]\<rparr>))"

text \<open>
  The body of the \<^verbatim>\<open>try\<close> block: the tool waits 500 milliseconds, then the cache is read,
  then the tool starts the retry wrapper.
\<close>

definition videoSearch_try :: "world \<Rightarrow> string \<Rightarrow> int \<Rightarrow> service \<Rightarrow> (exn + string) \<times> service" where
  "videoSearch_try w embeddingId limit s =
     (let s0 = s\<lparr>activity := activity s @ [Waiting 500]\<rparr>;
          cacheKey = embeddingId @ ''_1536''
      in case embeddingCache s0 cacheKey of
           None \<Rightarrow>
             (Inl (Error (''Embedding '' @ embeddingId
                @ '' not found in cache. Please use generateEmbedding first.'')), s0)
         | Some embedding \<Rightarrow>
             (let (r, s', events) =
                    retryOperation (videoSearch_operation w embedding limit)
                      (''Video Search for '' @ embeddingId) 5 2000 (Math_random w) s0;
                  s'' = s'\<lparr>activity := activity s' @ events\<rparr>
              in case r of
                   Inl e \<Rightarrow> (Inl e, s'')
                 | Inr videos \<Rightarrow>
                     if length videos = 0 then (Inr no_videos_found, s'')
                     else
                       (case map_throwing (video_text w) (indexed videos) of
                          Inl e \<Rightarrow> (Inl e, s'')
                        | Inr texts \<Rightarrow> (Inr (videoToolResponse (length videos) texts), s''))))"

text \<open>
  The tool: the argument \<^verbatim>\<open>limit\<close> defaults to 4; the \<^verbatim>\<open>catch\<close> block returns a string.
\<close>

definition videoSearch :: "world \<Rightarrow> string \<Rightarrow> int option \<Rightarrow> service \<Rightarrow> (exn + string) \<times> service" where
  "videoSearch w embeddingId limit_arg s =
     (let limit = (case limit_arg of None \<Rightarrow> 4 | Some l \<Rightarrow> l)
      in case videoSearch_try w embeddingId limit s of
           (Inr response, s') \<Rightarrow> (Inr response, s')
         | (Inl error, s') \<Rightarrow>
             (case message_of error of
                Inl e \<Rightarrow> (Inl e, s')
              | Inr m \<Rightarrow>
                  (Inr (''Video search unavailable: '' @ m
                     @ ''. Please check PostgreSQL connection and database status.''), s')))"

subsection \<open>The response validator\<close>

text \<open>
  A value produced by \<^verbatim>\<open>JSON.parse\<close>. A property that an object does not have reads as
  \<^verbatim>\<open>undefined\<close>, which is \<open>None\<close>; of a key written twice the last one counts.
\<close>

datatype json =
    JNull
  | JBool bool
  | JNumber real
  | JString string
  | JArray "json list"
  | JObject "(string \<times> json) list"

definition property :: "(string \<times> json) list \<Rightarrow> string \<Rightarrow> json option" where
  "property kvs k = map_of (rev kvs) k"

text \<open>
  The five decorated properties of \<^verbatim>\<open>SolutionOutputDto\<close> after \<^verbatim>\<open>plainToClass\<close>, which copies
  the properties of the plain object.
\<close>

record SolutionOutputDto =
  answer :: "json option"
  ans_description :: "json option"
  references :: "json option"
  video_references :: "json option"
  images :: "json option"

definition plainToClass :: "(string \<times> json) list \<Rightarrow> SolutionOutputDto" where
  "plainToClass kvs =
     \<lparr>answer = property kvs ''answer'',
      ans_description = property kvs ''ans_description'',
      references = property kvs ''references'',
      video_references = property kvs ''video_references'',
      images = property kvs ''images''\<rparr>"

text \<open>
  The decorators, with the meaning class-validator gives them under its default options:
  \<^verbatim>\<open>@IsNumber()\<close> accepts a finite number, \<^verbatim>\<open>@IsString()\<close> a string, \<^verbatim>\<open>@IsBoolean()\<close> a
  boolean, \<^verbatim>\<open>@IsArray()\<close> an array; \<^verbatim>\<open>@IsOptional()\<close> skips the other decorators of a
  property that is \<^verbatim>\<open>null\<close> or \<^verbatim>\<open>undefined\<close>.
\<close>

fun IsNumber :: "json option \<Rightarrow> bool" where
  "IsNumber (Some (JNumber x)) = True"
| "IsNumber _ = False"

fun IsString :: "json option \<Rightarrow> bool" where
  "IsString (Some (JString x)) = True"
| "IsString _ = False"

fun IsBoolean :: "json option \<Rightarrow> bool" where
  "IsBoolean (Some (JBool x)) = True"
| "IsBoolean _ = False"

fun IsArray :: "json option \<Rightarrow> bool" where
  "IsArray (Some (JArray xs)) = True"
| "IsArray _ = False"

fun IsOptional :: "json option \<Rightarrow> bool" where
  "IsOptional None = True"
| "IsOptional (Some JNull) = True"
| "IsOptional _ = False"

text \<open>The nested classes: an instance is valid when none of its decorators fails.\<close>

definition ReferenceDto :: "(string \<times> json) list \<Rightarrow> bool" where
  "ReferenceDto kvs =
     (IsString (property kvs ''book_title'') \<and> IsString (property kvs ''book_id'')
      \<and> IsNumber (property kvs ''page_start'') \<and> IsNumber (property kvs ''page_end''))"

definition VideoReferenceDto :: "(string \<times> json) list \<Rightarrow> bool" where
  "VideoReferenceDto kvs =
     (IsString (property kvs ''video_id'') \<and> IsString (property kvs ''time_start'')
      \<and> IsString (property kvs ''time_end''))"

definition ImageDto :: "(string \<times> json) list \<Rightarrow> bool" where
  "ImageDto kvs =
     (IsBoolean (property kvs ''is_required'')
      \<and> (IsOptional (property kvs ''image_description'')
          \<or> IsString (property kvs ''image_description'')))"

text \<open>
  \<^verbatim>\<open>@ValidateNested({ each: true })\<close> with \<^verbatim>\<open>@Type\<close>: an array is walked element by
  element, an object is validated as an instance of the nested class, anything else is
  refused.
\<close>

fun nested_valid :: "((string \<times> json) list \<Rightarrow> bool) \<Rightarrow> json \<Rightarrow> bool" where
  "nested_valid cls (JArray xs) = list_all (nested_valid cls) xs"
| "nested_valid cls (JObject kvs) = cls kvs"
| "nested_valid cls v = False"

text \<open>
  A validation error of a property: the messages of its failed constraints (the values of
  \<^verbatim>\<open>error.constraints\<close>); an error that only has children has none.
\<close>

record ValidationError =
  error_property :: string
  error_constraints :: "string list"

definition scalar_errors ::
  "string \<Rightarrow> (json option \<Rightarrow> bool) \<Rightarrow> string \<Rightarrow> json option \<Rightarrow> ValidationError list" where
  "scalar_errors name accepts what v =
     (if accepts v then []
      else [\<lparr>error_property = name, error_constraints = [name @ '' must be '' @ what]\<rparr>])"

definition nested_array_errors ::
  "string \<Rightarrow> ((string \<times> json) list \<Rightarrow> bool) \<Rightarrow> json option \<Rightarrow> ValidationError list" where
  "nested_array_errors name cls v =
     (let constraints =
            (if IsArray v then [] else [name @ '' must be an array''])
            @ (case v of
                 None \<Rightarrow> []
               | Some (JArray xs) \<Rightarrow> []
               | Some (JObject kvs) \<Rightarrow> []
               | Some _ \<Rightarrow>
                   [''each value in nested property '' @ name
                      @ '' must be either object or array'']);
          children = (case v of
                        Some (JArray xs) \<Rightarrow> \<not> nested_valid cls (JArray xs)
                      | Some (JObject kvs) \<Rightarrow> \<not> nested_valid cls (JObject kvs)
                      | _ \<Rightarrow> False)
      in if constraints = [] \<and> \<not> children then []
         else [\<lparr>error_property = name, error_constraints = constraints\<rparr>])"

text \<open>\<^verbatim>\<open>validate(dto)\<close> for the decorators of \<^verbatim>\<open>SolutionOutputDto\<close>.\<close>

definition validate :: "SolutionOutputDto \<Rightarrow> ValidationError list" where
  "validate dto =
     scalar_errors ''answer'' IsNumber
        ''a number conforming to the specified constraints'' (answer dto)
     @ scalar_errors ''ans_description'' IsString ''a string'' (ans_description dto)
     @ nested_array_errors ''references'' ReferenceDto (references dto)
     @ nested_array_errors ''video_references'' VideoReferenceDto (video_references dto)
     @ nested_array_errors ''images'' ImageDto (images dto)"

definition error_text :: "ValidationError \<Rightarrow> string" where
  "error_text e =
     ''Property '' @ [CHR 0x27] @ error_property e @ [CHR 0x27] @ '': ''
     @ join '', '' (error_constraints e)"

text \<open>
  The two business rules that follow \<^verbatim>\<open>validate\<close>. They are reached only with an
  \<^verbatim>\<open>answer\<close> that is a number and an \<^verbatim>\<open>ans_description\<close> that is a string.
\<close>

fun answer_out_of_range :: "json option \<Rightarrow> bool" where
  "answer_out_of_range (Some (JNumber x)) = (x < 0 \<or> x > 3)"
| "answer_out_of_range _ = False"

fun description_empty :: "json option \<Rightarrow> bool" where
  "description_empty (Some (JString d)) = (d = [] \<or> length (trim d) = 0)"
| "description_empty _ = True"

text \<open>
  The body of the \<^verbatim>\<open>try\<close> block of \<^verbatim>\<open>validateAndTransformResponse\<close>. A response that is not
  an object has no decorated class, and \<^verbatim>\<open>plainToClass\<close> hands it on as it is: of \<^verbatim>\<open>null\<close>
  the validator cannot read the constructor; a string it takes for the name of a schema,
  with no object to validate, and cannot read the constructor of \<^verbatim>\<open>undefined\<close>; any other
  value it refuses as unknown.
\<close>

definition validate_try :: "json \<Rightarrow> exn + SolutionOutputDto" where
  "validate_try response =
     (case response of
        JObject kvs \<Rightarrow>
          (let dto = plainToClass kvs;
               errors = validate dto
           in if length errors > 0
              then Inl (Error (''Validation failed: '' @ join ''; '' (map error_text errors)))
              else if answer_out_of_range (answer dto)
              then Inl (Error ''Answer must be between 0 and 3 (0-based index for options A-D)'')
              else if description_empty (ans_description dto)
              then Inl (Error ''Answer description cannot be empty'')
              else Inr dto)
      | JNull \<Rightarrow> Inl (TypeError ''Cannot read properties of null (reading 'constructor')'')
      | JString text \<Rightarrow>
          Inl (TypeError ''Cannot read properties of undefined (reading 'constructor')'')
      | _ \<Rightarrow>
          Inl (Error (''Validation failed: Property 'undefined': ''
                 @ ''an unknown value was passed to the validate function'')))"

definition validateAndTransformResponse :: "json \<Rightarrow> exn + SolutionOutputDto" where
  "validateAndTransformResponse response =
     (case validate_try response of
        Inr dto \<Rightarrow> Inr dto
      | Inl error \<Rightarrow>
          (case message_of error of
             Inl e \<Rightarrow> Inl e
           | Inr m \<Rightarrow> Inl (LLMGenerationError (''Invalid response format: '' @ m))))"

subsection \<open>The agent run and generate\<close>

record ExtractedImage =
  mimeType :: string
  data :: string
  originalUrl :: string
  altText :: "string option"

record ServicableQuestion =
  question :: string
  options :: "string list"
  question_images :: "ExtractedImage list option"

text \<open>What \<^verbatim>\<open>imageProcessor.processQuestionAndOptions\<close> resolves with.\<close>

record ProcessedQuestion =
  processed_question :: string
  processed_options :: "string list"
  processed_images :: "ExtractedImage list"

record AgentInput =
  agent_input :: string
  agent_systemMessage :: string
  agent_imagesContext :: string

text \<open>
  \<^verbatim>\<open>result.output\<close> of the agent executor: missing (\<^verbatim>\<open>undefined\<close> or \<^verbatim>\<open>null\<close>), a string, or
  an array of content parts.
\<close>

datatype agent_output = OutputMissing | OutputText string | OutputParts "string list"

text \<open>A tool invocation requested by the model, with the arguments the schema admits.\<close>

datatype tool_call =
    GenerateEmbeddingCall string
  | VectorSearchCall string "int option"
  | VideoSearchCall string "int option"

fun run_tool :: "world \<Rightarrow> tool_call \<Rightarrow> service \<Rightarrow> service" where
  "run_tool w (GenerateEmbeddingCall text) s = snd (generateEmbedding w text s)"
| "run_tool w (VectorSearchCall embeddingId limit) s = snd (vectorSearch w embeddingId limit s)"
| "run_tool w (VideoSearchCall embeddingId limit) s = snd (videoSearch w embeddingId limit s)"

fun run_tools :: "(world \<times> tool_call) list \<Rightarrow> service \<Rightarrow> service" where
  "run_tools [] s = s"
| "run_tools ((w, call) # calls) s = run_tools calls (run_tool w call s)"

text \<open>
  What one iteration of the agent executor comes to: the model gives its final output; or
  it asks for tools, which are run; or the invocation rejects (the model or a tool throws,
  or the 120 second timer of \<^verbatim>\<open>executeWithTimeout\<close> wins the race), after the tools that
  were run in this iteration. The tools of one iteration are taken one after the other, in
  the order of the list.
\<close>

datatype agent_step =
    AgentFinish agent_output
  | AgentAction "(world \<times> tool_call) list"
  | AgentRejects "(world \<times> tool_call) list" exn

text \<open>
  The collaborators of \<^verbatim>\<open>generate\<close>. \<open>agent_plan\<close> gives, for the input sent to the agent
  executor, what each of its iterations comes to, counted from 0. \<^verbatim>\<open>JSON.parse\<close> yields a
  value or the message of its \<^verbatim>\<open>SyntaxError\<close>.
\<close>

record collaborators =
  processQuestionAndOptions :: "string \<Rightarrow> string list \<Rightarrow> exn + ProcessedQuestion"
  agent_plan :: "AgentInput \<Rightarrow> nat \<Rightarrow> agent_step"
  JSON_parse :: "string \<Rightarrow> string + json"

text \<open>
  \<^verbatim>\<open>agentExecutor.invoke\<close>. The executor is LangChain's \<^verbatim>\<open>AgentExecutor\<close>, built in
  \<^verbatim>\<open>initializeAgentWithRetry\<close> with \<^verbatim>\<open>maxIterations: 15\<close> and no early stopping method. Its
  loop asks the agent while fewer than \<^verbatim>\<open>maxIterations\<close> iterations are done; an iteration
  that asks for tools runs them and counts; when the bound is reached the executor
  resolves with the output of its forced stop, the text "Agent stopped due to max
  iterations." The result is the tool invocations made, in order, and the value with
  which the invocation resolves or rejects.
\<close>

definition maxIterations :: nat where
  "maxIterations = 15"

fun executor_loop ::
  "(nat \<Rightarrow> agent_step) \<Rightarrow> nat \<Rightarrow> nat \<Rightarrow> (world \<times> tool_call) list \<times> (exn + agent_output)" where
  "executor_loop plan 0 iterations =
     ([], Inr (OutputText ''Agent stopped due to max iterations.''))"
| "executor_loop plan (Suc remaining) iterations =
     (case plan iterations of
        AgentFinish output \<Rightarrow> ([], Inr output)
      | AgentRejects calls e \<Rightarrow> (calls, Inl e)
      | AgentAction calls \<Rightarrow>
          (let (more, result) = executor_loop plan remaining (iterations + 1)
           in (calls @ more, result)))"

definition agentExecutor_invoke ::
  "collaborators \<Rightarrow> AgentInput \<Rightarrow> (world \<times> tool_call) list \<times> (exn + agent_output)" where
  "agentExecutor_invoke c agentInput = executor_loop (agent_plan c agentInput) maxIterations 0"

text \<open>An element of \<^verbatim>\<open>processedOptions\<close> inside the template; a missing one prints as undefined.\<close>

definition option_text :: "string list \<Rightarrow> nat \<Rightarrow> string" where
  "option_text opts i = (if i < length opts then opts ! i else ''undefined'')"

definition hasMarkdownImages :: "ServicableQuestion \<Rightarrow> bool" where
  "hasMarkdownImages q =
     list_ex (\<lambda>text. str_includes text ''!['' \<and> str_includes text '']('')
       (question q # options q)"

text \<open>The first part of the \<^verbatim>\<open>try\<close> block: what is sent to the agent executor.\<close>

definition prepare_input :: "collaborators \<Rightarrow> ServicableQuestion \<Rightarrow> string \<Rightarrow> exn + AgentInput" where
  "prepare_input c q systemMessage =
     (let existing = (case question_images q of None \<Rightarrow> [] | Some imgs \<Rightarrow> imgs)
      in case (if hasMarkdownImages q
               then (case processQuestionAndOptions c (question q) (options q) of
                       Inl e \<Rightarrow> Inl e
                     | Inr imageResult \<Rightarrow>
                         Inr (processed_question imageResult, processed_options imageResult,
                              existing @ processed_images imageResult))
               else Inr (question q, options q, existing)) of
           Inl e \<Rightarrow> Inl e
         | Inr (processedQuestion, processedOptions, extractedImages) \<Rightarrow>
             (let textMessage =
                    ''Question: '' @ processedQuestion @ ''\<newline>''
                    @ ''Options:\<newline>''
                    @ option_text processedOptions 0 @ ''\<newline>''
                    @ option_text processedOptions 1 @ ''\<newline>''
                    @ option_text processedOptions 2 @ ''\<newline>''
                    @ option_text processedOptions 3;
                  imagesContext =
                    (if length extractedImages > 0
                     then ''\<newline>\<newline>IMAGES PROVIDED: This question includes ''
                       @ show_nat (length extractedImages)
                       @ '' image(s). The question may contain visual elements that need to be considered when determining the answer. Use the text content and context clues to understand what the images might show and factor this into your analysis.''
                     else [])
              in Inr \<lparr>agent_input = textMessage,
                      agent_systemMessage = systemMessage,
                      agent_imagesContext = imagesContext\<rparr>))"

definition empty_output_message :: string where
  "empty_output_message =
     ''Agent returned empty output. This could be due to token limit exhaustion, iteration limit reached, database timeouts, or tool execution failures. Check verbose logs for details.''"

text \<open>The part of the \<^verbatim>\<open>try\<close> block after the agent executor has resolved.\<close>

definition extract_json :: "string \<Rightarrow> string" where
  "extract_json responseText =
     (let jsonString = trim responseText
      in case (indexOf jsonString CHR ''{'', lastIndexOf jsonString CHR ''}'') of
           (Some jsonStart, Some jsonEnd) \<Rightarrow>
             if jsonEnd > jsonStart then substring jsonString jsonStart (jsonEnd + 1)
             else jsonString
         | _ \<Rightarrow> jsonString)"

definition handle_output :: "collaborators \<Rightarrow> agent_output \<Rightarrow> exn + SolutionOutputDto" where
  "handle_output c output =
     (case output of
        OutputMissing \<Rightarrow> Inl (LLMGenerationError empty_output_message)
      | OutputParts parts \<Rightarrow>
          if length parts = 0 then Inl (LLMGenerationError empty_output_message)
          else Inl (TypeError ''result.output.trim is not a function'')
      | OutputText responseText \<Rightarrow>
          if responseText = [] \<or> trim responseText = []
          then Inl (LLMGenerationError empty_output_message)
          else
            (case JSON_parse c (extract_json responseText) of
               Inl parseError \<Rightarrow>
                 Inl (LLMGenerationError
                        (''Invalid JSON response from LangChain agent: '' @ parseError))
             | Inr parsedResponse \<Rightarrow> validateAndTransformResponse parsedResponse))"

definition generate_try ::
  "collaborators \<Rightarrow> ServicableQuestion \<Rightarrow> string \<Rightarrow> service \<Rightarrow> (exn + SolutionOutputDto) \<times> service" where
  "generate_try c q systemMessage s =
     (let s1 = clearEmbeddingCache s
      in case prepare_input c q systemMessage of
           Inl e \<Rightarrow> (Inl e, s1)
         | Inr agentInput \<Rightarrow>
             (let (calls, result) = agentExecutor_invoke c agentInput;
                  s2 = run_tools calls s1
              in case result of
                   Inl e \<Rightarrow> (Inl e, s2)
                 | Inr output \<Rightarrow> (handle_output c output, s2)))"

text \<open>\<^verbatim>\<open>generate\<close>: the \<^verbatim>\<open>catch\<close> block wraps whatever was thrown.\<close>

definition generate ::
  "collaborators \<Rightarrow> ServicableQuestion \<Rightarrow> string \<Rightarrow> service \<Rightarrow> (exn + SolutionOutputDto) \<times> service" where
  "generate c q systemMessage s =
     (case generate_try c q systemMessage s of
        (Inr validatedResult, s') \<Rightarrow> (Inr validatedResult, s')
      | (Inl error, s') \<Rightarrow>
          (case message_of error of
             Inl e \<Rightarrow> (Inl e, s')
           | Inr m \<Rightarrow> (Inl (LLMGenerationError (''Failed to generate solution: '' @ m)), s')))"

subsection \<open>Notions used in the statements\<close>

text \<open>
  An attempt that fails with an error object: the value thrown has a \<^verbatim>\<open>message\<close> that the
  catch block can read, so it is neither \<^verbatim>\<open>undefined\<close> nor \<^verbatim>\<open>null\<close>.
\<close>

definition throws_error_object :: "exn + 'a \<Rightarrow> bool" where
  "throws_error_object outcome =
     (case outcome of
        Inl e \<Rightarrow> (case message_of e of Inl typeError \<Rightarrow> False | Inr m \<Rightarrow> True)
      | Inr v \<Rightarrow> False)"

text \<open>
  An array of well-formed records, in the words of the specification: every element is an
  object that its class accepts.
\<close>

definition array_of_records :: "((string \<times> json) list \<Rightarrow> bool) \<Rightarrow> json option \<Rightarrow> bool" where
  "array_of_records cls v =
     (case v of
        Some (JArray xs) \<Rightarrow> list_all (\<lambda>x. case x of JObject kvs \<Rightarrow> cls kvs | _ \<Rightarrow> False) xs
      | _ \<Rightarrow> False)"


text \<open>
  A step of the service that only appends effects taken from a set \<open>A\<close> and does not
  touch the cache or the counter.
\<close>

definition appends_only :: "effect set \<Rightarrow> service \<Rightarrow> service \<Rightarrow> bool" where
  "appends_only A s s' =
     (embeddingCache s' = embeddingCache s \<and> embeddingCounter s' = embeddingCounter s
      \<and> (\<exists>es. effects s' = effects s @ es \<and> set es \<subseteq> A))"

text \<open>A step of the service that only appends effects, none of them a reset of the cache.\<close>

definition extends_without_clear :: "service \<Rightarrow> service \<Rightarrow> bool" where
  "extends_without_clear s s' = (\<exists>es. effects s' = effects s @ es \<and> CacheClear \<notin> set es)"

subsection \<open>Example inputs\<close>

text \<open>A service that has cached nothing, and collaborators that are all out of reach.\<close>

definition fresh_service :: service where
  "fresh_service =
     \<lparr>embeddingCache = Map.empty, embeddingCounter = 0, effects = [], activity = []\<rparr>"

definition offline_world :: world where
  "offline_world =
     \<lparr>Math_random = (\<lambda>k. 0),
      embeddings_embedQuery = (\<lambda>k text. Inl (Error ''connect ECONNREFUSED'')),
      videoEmbeddings_embedQuery = (\<lambda>k text. Inl (Error ''connect ECONNREFUSED'')),
      videoEmbeddings_rejects_first = (\<lambda>k. False),
      match_documents = (\<lambda>k v l. ConnectFailed ''connect ECONNREFUSED''),
      video_recordings = (\<lambda>k v l. ConnectFailed ''connect ECONNREFUSED''),
      JSON_parse_metadata = (\<lambda>t. Inl (SyntaxError ''Unexpected end of JSON input'')),
      toFixed3 = (\<lambda>x. ''0.000'')\<rparr>"

text \<open>A service that holds one embedding pair, of two and of one component.\<close>

definition cached_service :: service where
  "cached_service =
     \<lparr>embeddingCache = [''emb_1_3072'' \<mapsto> [1 / 2, 1 / 4], ''emb_1_1536'' \<mapsto> [1 / 2]],
      embeddingCounter = 1,
      effects = [CacheClear, EmbedQuery 3072 ''pulse'', EmbedQuery 1536 ''pulse''],
      activity = [Attempt 1]\<rparr>"

text \<open>
  A store whose video table holds as many segments as are asked for, and none when the
  limit is not positive; its first round trip fails, the second succeeds.
\<close>

definition segment :: "nat \<Rightarrow> video_row" where
  "segment i =
     \<lparr>row_video_id = ''vid_'' @ show_nat i,
      row_time_start = ''00:00:10'',
      row_time_end = ''00:01:00'',
      row_video_content = None,
      row_transcript = Some ''Count the pulse for a full minute.'',
      row_video_score = Some (9 / 10)\<rparr>"

definition video_world :: world where
  "video_world =
     offline_world\<lparr>video_recordings :=
       (\<lambda>k v l. if k < 2 then QueryFailed ''Video search timeout after 20000ms''
                else Rows (map segment [0 ..< nat l]))\<rparr>"

text \<open>
  A store whose document table answers every query with as many passages as are asked
  for, at most six, and refuses a negative limit; and a store that answers with one passage
  of 600 characters.
\<close>

definition passage :: "string \<Rightarrow> document_row" where
  "passage text =
     \<lparr>row_id = Some ''doc_1'',
      row_content = Some text,
      row_metadata = MetadataObject
        \<lparr>book = None, book_title = Some ''Fundamentals of Nursing'', book_id = Some ''book_7'',
         chapter_title = None, page_number = None, page_start = Some 120, page_end = Some 121,
         paragraph_number = None\<rparr>,
      row_score = Some (9 / 10)\<rparr>"

definition library_world :: world where
  "library_world =
     offline_world\<lparr>match_documents :=
       (\<lambda>k v l. if l < 0 then QueryFailed ''LIMIT must not be negative''
                else Rows (replicate (min 6 (nat l)) (passage ''Radial pulse.'')))\<rparr>"

definition long_passage :: string where
  "long_passage = replicate 600 CHR ''x''"

definition long_passage_world :: world where
  "long_passage_world =
     offline_world\<lparr>match_documents := (\<lambda>k v l. Rows [passage long_passage]),
                   toFixed3 := (\<lambda>x. ''0.900'')\<rparr>"

text \<open>Three parsed responses: one that is in order, one with answer 4, one with a blank description.\<close>

definition good_response :: "(string \<times> json) list" where
  "good_response =
     [(''answer'', JNumber 2),
      (''ans_description'', JString ''The radial pulse is counted for a full minute.''),
      (''references'',
         JArray [JObject [(''book_title'', JString ''Fundamentals of Nursing''),
                          (''book_id'', JString ''book_7''),
                          (''page_start'', JNumber 120), (''page_end'', JNumber 121)]]),
      (''video_references'', JArray []),
      (''images'',
         JArray [JObject [(''is_required'', JBool False), (''image_description'', JNull)]])]"

definition answer_four_response :: "(string \<times> json) list" where
  "answer_four_response = good_response @ [(''answer'', JNumber 4)]"

definition blank_description_response :: "(string \<times> json) list" where
  "blank_description_response =
     good_response @ [(''ans_description'', JString [CHR '' '', CHR 0x09, CHR 0x0A])]"

text \<open>
  An embedding provider whose large model is rate-limited at the first request and answers
  from the second on.
\<close>

definition embedding_world :: world where
  "embedding_world =
     offline_world\<lparr>embeddings_embedQuery :=
                     (\<lambda>k text. if k < 2 then Inl (Error ''429 Too Many Requests'')
                               else Inr [1 / 2, 1 / 4]),
                   videoEmbeddings_embedQuery := (\<lambda>k text. Inr [1 / 2])\<rparr>"

text \<open>
  A question without images, and an agent that asks for a search with the id of an earlier
  question, then for a new embedding and a search with its id, and that ends with a blank
  output.
\<close>

definition pulse_question :: ServicableQuestion where
  "pulse_question =
     \<lparr>question = ''Normal adult pulse?'',
      options = [''40-60'', ''60-100'', ''100-120'', ''120-140''],
      question_images = None\<rparr>"

definition stalled_collaborators :: collaborators where
  "stalled_collaborators =
     \<lparr>processQuestionAndOptions = (\<lambda>text opts. Inl (Error ''Request failed with status code 404'')),
      agent_plan =
        (\<lambda>agentInput i.
           if i = 0 then AgentAction [(library_world, VectorSearchCall ''emb_1'' None)]
           else if i = 1 then AgentAction [(embedding_world, GenerateEmbeddingCall ''pulse'')]
           else if i = 2 then AgentAction [(library_world, VectorSearchCall ''emb_1'' (Some 2))]
           else AgentFinish (OutputText [CHR '' '', CHR 0x0A])),
      JSON_parse = (\<lambda>text. Inl ''Unexpected end of JSON input'')\<rparr>"






section \<open>Properties\<close>

subsection \<open>The retry wrapper\<close>


text \<open>The five ways in which the loop goes on from attempt \<open>a\<close>.\<close>

lemma retry_loop_done:
  "\<not> a \<le> N \<Longrightarrow> retry_loop operation N b rnd a le s = (Inl le, s, [])"
  by (simp add: retry_loop.simps)

lemma retry_loop_result:
  "a \<le> N \<Longrightarrow> operation a s = (Inr v, s1) \<Longrightarrow>
     retry_loop operation N b rnd a le s = (Inr v, s1, [Attempt a])"
  by (simp add: retry_loop.simps)

lemma retry_loop_unreadable:
  "a \<le> N \<Longrightarrow> operation a s = (Inl e, s1) \<Longrightarrow> message_of e = Inl typeError \<Longrightarrow>
     retry_loop operation N b rnd a le s = (Inl typeError, s1, [Attempt a])"
  by (simp add: retry_loop.simps)

lemma retry_loop_last:
  "operation N s = (Inl e, s1) \<Longrightarrow> message_of e = Inr m \<Longrightarrow>
     retry_loop operation N b rnd N le s = (Inl e, s1, [Attempt N])"
  by (simp add: retry_loop.simps)

lemma retry_loop_again:
  "a < N \<Longrightarrow> operation a s = (Inl e, s1) \<Longrightarrow> message_of e = Inr m \<Longrightarrow>
     retry_loop operation N b rnd (Suc a) e s1 = (r, s2, evs) \<Longrightarrow>
     retry_loop operation N b rnd a le s =
       (r, s2, Attempt a # Waiting (backoff_delay b a (rnd a)) # evs)"
  by (simp add: retry_loop.simps[of operation N b rnd a])


text \<open>
  While the attempts fail with error objects, the loop goes on: a run from attempt \<open>a\<close>
  whose attempts before \<open>k\<close> all fail so continues as the run from attempt \<open>k\<close>. \<open>st j\<close> is
  the state in which attempt \<open>j\<close> starts.
\<close>

lemma retry_loop_failures:
  assumes "st a = s"
    and "\<And>j. a \<le> j \<Longrightarrow> j < k \<Longrightarrow> st (Suc j) = snd (operation j (st j))"
    and "\<And>j. a \<le> j \<Longrightarrow> j < k \<Longrightarrow> throws_error_object (fst (operation j (st j)))"
    and "a \<le> k" "k \<le> N"
    and "retry_loop operation N b rnd a le s = (r, s', evs)"
  shows "\<exists>le' evs'. retry_loop operation N b rnd k le' (st k) = (r, s', evs') \<and>
           length (attempts evs) = (k - a) + length (attempts evs')"
  using assms
proof (induction "k - a" arbitrary: a s le evs)
  case 0
  then have "a = k" by simp
  with "0.prems" show ?case by auto
next
  case (Suc d)
  then have ak: "a < k" by simp
  obtain res s1 where op: "operation a s = (res, s1)" by (cases "operation a s")
  from Suc.prems(3)[of a] ak Suc.prems(1) op obtain e m where res: "res = Inl e"
    and readable: "message_of e = Inr m"
    by (auto simp: throws_error_object_def split: sum.splits)
  obtain r2 s2 evs2 where rec: "retry_loop operation N b rnd (Suc a) e s1 = (r2, s2, evs2)"
    by (cases "retry_loop operation N b rnd (Suc a) e s1")
  have lt: "a < N" using ak Suc.prems(5) by simp
  from Suc.prems(6) retry_loop_again[where s = s and le = le, OF lt _ readable rec] op res
  have evs: "evs = Attempt a # Waiting (backoff_delay b a (rnd a)) # evs2" and r2: "r2 = r" "s2 = s'"
    by simp_all
  have st1: "st (Suc a) = s1" using Suc.prems(2)[of a] ak Suc.prems(1) op by simp
  have d: "d = k - Suc a" using Suc.hyps(2) by simp
  have rec': "retry_loop operation N b rnd (Suc a) e s1 = (r, s', evs2)"
    using rec r2 by simp
  have "\<exists>le' evs'. retry_loop operation N b rnd k le' (st k) = (r, s', evs') \<and>
           length (attempts evs2) = (k - Suc a) + length (attempts evs')"
  proof (rule Suc.hyps(1)[OF d st1 _ _ _ Suc.prems(5) rec'])
    show "\<And>j. Suc a \<le> j \<Longrightarrow> j < k \<Longrightarrow> st (Suc j) = snd (operation j (st j))"
      using Suc.prems(2) by simp
    show "\<And>j. Suc a \<le> j \<Longrightarrow> j < k \<Longrightarrow> throws_error_object (fst (operation j (st j)))"
      using Suc.prems(3) by simp
    show "Suc a \<le> k" using ak by simp
  qed
  then obtain le' evs' where ih: "retry_loop operation N b rnd k le' (st k) = (r, s', evs')"
    "length (attempts evs2) = (k - Suc a) + length (attempts evs')"
    by blast
  have "length (attempts evs) = (k - a) + length (attempts evs')"
    using ih(2) ak by (simp add: evs)
  with ih(1) show ?case by blast
qed

lemma state_before_Suc:
  "1 \<le> j \<Longrightarrow> state_before operation s (Suc j) = snd (operation j (state_before operation s j))"
  by (cases j) simp_all

text \<open>
  The same for the wrapper itself: when the attempts before \<open>k\<close> fail with error objects,
  the run is the run of the loop from attempt \<open>k\<close> on, and attempt \<open>k\<close> is made.
\<close>

lemma retryOperation_continues:
  assumes run: "retryOperation operation name N b rnd s = (r, s', evs)"
    and fails: "\<And>j. 1 \<le> j \<Longrightarrow> j < k \<Longrightarrow> throws_error_object (attempt_outcome operation s j)"
    and k: "1 \<le> k" "k \<le> N"
  shows "\<exists>le' evs'. retry_loop operation N b rnd k le' (state_before operation s k) = (r, s', evs')
           \<and> length (attempts evs) = (k - 1) + length (attempts evs')"
proof (rule retry_loop_failures[where a = 1 and s = s and le = Undefined])
  show "state_before operation s 1 = s" by simp
  show "\<And>j. 1 \<le> j \<Longrightarrow> j < k \<Longrightarrow>
      state_before operation s (Suc j) = snd (operation j (state_before operation s j))"
    by (simp add: state_before_Suc)
  show "\<And>j. 1 \<le> j \<Longrightarrow> j < k \<Longrightarrow>
      throws_error_object (fst (operation j (state_before operation s j)))"
    using fails by (simp add: attempt_outcome_def)
  show "1 \<le> k" "k \<le> N" using k by simp_all
  show "retry_loop operation N b rnd 1 Undefined s = (r, s', evs)"
    using run by (simp add: retryOperation_def)
qed


text \<open>
  The run ends with the first attempt that succeeds, with the failure of attempt \<open>N\<close>, or
  with the first attempt that throws a value without a message.
\<close>

lemma retryOperation_result:
  assumes run: "retryOperation operation name N b rnd s = (r, s', evs)"
    and fails: "\<And>j. 1 \<le> j \<Longrightarrow> j < k \<Longrightarrow> throws_error_object (attempt_outcome operation s j)"
    and k: "1 \<le> k" "k \<le> N"
    and last: "\<not> isl (attempt_outcome operation s k)
               \<or> (k = N \<and> throws_error_object (attempt_outcome operation s k))"
  shows "r = attempt_outcome operation s k"
    and "s' = snd (operation k (state_before operation s k))"
    and "length (attempts evs) = k"
proof -
  from retryOperation_continues[OF run fails k] obtain le' evs' where
    rest: "retry_loop operation N b rnd k le' (state_before operation s k) = (r, s', evs')"
    and len: "length (attempts evs) = (k - 1) + length (attempts evs')" by blast
  obtain res s1 where op: "operation k (state_before operation s k) = (res, s1)"
    by (cases "operation k (state_before operation s k)")
  have out: "attempt_outcome operation s k = res" using op by (simp add: attempt_outcome_def)
  have "r = res \<and> s' = s1 \<and> evs' = [Attempt k]"
  proof (cases res)
    case (Inr v)
    with rest op k show ?thesis by (simp add: retry_loop_result)
  next
    case (Inl e)
    with last out obtain m where "k = N" "message_of e = Inr m"
      by (auto simp: throws_error_object_def split: sum.splits)
    with rest op Inl show ?thesis by (simp add: retry_loop_last)
  qed
  then show "r = attempt_outcome operation s k"
    and "s' = snd (operation k (state_before operation s k))"
    and "length (attempts evs) = k"
    using out op len k by simp_all
qed





lemma retryOperation_first_success:
  "operation 1 s = (Inr v, s1) \<Longrightarrow> 1 \<le> N \<Longrightarrow>
     retryOperation operation name N b rnd s = (Inr v, s1, [Attempt 1])"
  by (simp add: retryOperation_def retry_loop.simps)

text \<open>
  A relation between states that every attempt respects, and that is reflexive and
  transitive, holds between the state before and the state after a run.
\<close>

lemma retry_loop_relates:
  assumes step: "\<And>k s r s1. operation k s = (r, s1) \<Longrightarrow> P s s1"
    and Prefl: "\<And>s. P s s"
    and Ptrans: "\<And>s1 s2 s3. P s1 s2 \<Longrightarrow> P s2 s3 \<Longrightarrow> P s1 s3"
    and run: "retry_loop operation N b rnd a le s = (r, s', evs)"
  shows "P s s'"
  using run
proof (induction "N + 1 - a" arbitrary: a le s r s' evs)
  case 0
  then have "\<not> a \<le> N" by simp
  with "0.prems" have "s' = s" by (simp add: retry_loop_done)
  then show ?case using Prefl by simp
next
  case (Suc d)
  then have aN: "a \<le> N" by simp
  obtain res s1 where op: "operation a s = (res, s1)" by (cases "operation a s")
  have P1: "P s s1" using step[OF op] .
  show ?case
  proof (cases res)
    case (Inr v)
    with Suc.prems aN op have "s' = s1" by (simp add: retry_loop_result)
    then show ?thesis using P1 by simp
  next
    case (Inl e)
    show ?thesis
    proof (cases "message_of e")
      case unreadable: (Inl t)
      with Suc.prems aN op Inl have "s' = s1" by (simp add: retry_loop_unreadable)
      then show ?thesis using P1 by simp
    next
      case readable: (Inr m)
      show ?thesis
      proof (cases "a = N")
        case True
        with Suc.prems op Inl readable have "s' = s1" by (simp add: retry_loop_last)
        then show ?thesis using P1 by simp
      next
        case False
        then have lt: "a < N" using aN by simp
        obtain r2 s2 evs2 where rec:
          "retry_loop operation N b rnd (Suc a) e s1 = (r2, s2, evs2)"
          by (cases "retry_loop operation N b rnd (Suc a) e s1")
        have d: "d = N + 1 - Suc a" using Suc.hyps(2) by simp
        from Suc.prems retry_loop_again[where s = s and le = le, OF lt _ readable rec] op Inl
        have "s2 = s'" by simp
        with Suc.hyps(1)[OF d rec] have "P s1 s'" by simp
        with P1 show ?thesis using Ptrans by blast
      qed
    qed
  qed
qed

lemma retryOperation_relates:
  assumes "\<And>k s r s1. operation k s = (r, s1) \<Longrightarrow> P s s1"
    and "\<And>s. P s s"
    and "\<And>s1 s2 s3. P s1 s2 \<Longrightarrow> P s2 s3 \<Longrightarrow> P s1 s3"
    and "retryOperation operation name N b rnd s = (r, s', evs)"
  shows "P s s'"
  using retry_loop_relates[of operation P N b rnd 1 Undefined s r s' evs] assms
  by (simp add: retryOperation_def)

text \<open>
  A run that ends with a result ends with an attempt that yields it, and the attempts
  before it failed.
\<close>

lemma retry_loop_success_from:
  assumes step: "\<And>k s e s1. operation k s = (Inl e, s1) \<Longrightarrow> P s s1"
    and Prefl: "\<And>s. P s s"
    and Ptrans: "\<And>s1 s2 s3. P s1 s2 \<Longrightarrow> P s2 s3 \<Longrightarrow> P s1 s3"
    and run: "retry_loop operation N b rnd a le s = (Inr v, s', evs)"
  shows "\<exists>k s0. a \<le> k \<and> k \<le> N \<and> P s s0 \<and> operation k s0 = (Inr v, s')"
  using run
proof (induction "N + 1 - a" arbitrary: a le s evs)
  case 0
  then have "\<not> a \<le> N" by simp
  with "0.prems" show ?case by (simp add: retry_loop_done)
next
  case (Suc d)
  then have aN: "a \<le> N" by simp
  obtain res s1 where op: "operation a s = (res, s1)" by (cases "operation a s")
  show ?case
  proof (cases res)
    case (Inr v')
    with Suc.prems aN op have "v' = v" "s1 = s'" by (simp_all add: retry_loop_result)
    with op Inr aN Prefl show ?thesis by blast
  next
    case (Inl e)
    have P1: "P s s1" using step op Inl by simp
    show ?thesis
    proof (cases "message_of e")
      case unreadable: (Inl t)
      with Suc.prems aN op Inl show ?thesis by (simp add: retry_loop_unreadable)
    next
      case readable: (Inr m)
      have neq: "a \<noteq> N"
      proof
        assume "a = N"
        with Suc.prems op Inl readable show False by (simp add: retry_loop_last)
      qed
      then have lt: "a < N" using aN by simp
      obtain r2 s2 evs2 where rec:
        "retry_loop operation N b rnd (Suc a) e s1 = (r2, s2, evs2)"
        by (cases "retry_loop operation N b rnd (Suc a) e s1")
      have d: "d = N + 1 - Suc a" using Suc.hyps(2) by simp
      from Suc.prems retry_loop_again[where s = s and le = le, OF lt _ readable rec] op Inl
      have "r2 = Inr v" "s2 = s'" by simp_all
      with rec have rec': "retry_loop operation N b rnd (Suc a) e s1 = (Inr v, s', evs2)" by simp
      from Suc.hyps(1)[OF d rec']
      obtain k s0 where k: "Suc a \<le> k" "k \<le> N" "P s1 s0" "operation k s0 = (Inr v, s')"
        by blast
      from P1 k(3) Ptrans have "P s s0" by blast
      with k show ?thesis by (intro exI[of _ k] exI[of _ s0]) simp
    qed
  qed
qed

lemma retry_loop_success:
  assumes "retry_loop operation N b rnd a le s = (Inr v, s', evs)"
  shows "\<exists>k s0. a \<le> k \<and> k \<le> N \<and> operation k s0 = (Inr v, s')"
  using retry_loop_success_from[where P = "\<lambda>s s1. True", OF _ _ _ assms] by blast

lemma appends_only_refl: "appends_only A s s"
  by (simp add: appends_only_def)

lemma appends_only_trans:
  "appends_only A s1 s2 \<Longrightarrow> appends_only A s2 s3 \<Longrightarrow> appends_only A s1 s3"
  by (auto simp: appends_only_def)

text \<open>The history of timers and attempts is no part of what \<open>appends_only\<close> compares.\<close>

lemma appends_only_activity:
  "appends_only A (s\<lparr>activity := a\<rparr>) (s'\<lparr>activity := a'\<rparr>) = appends_only A s s'"
  by (simp add: appends_only_def)

lemma videoSearch_operation_appends:
  "videoSearch_operation w embedding limit k s = (r, s1) \<Longrightarrow>
     appends_only {VideoRecordings embedding limit} s s1"
  by (auto simp: videoSearch_operation_def appends_only_def split: reply.splits)

lemma vectorSearch_operation_appends:
  "vectorSearch_operation w embedding limit k s = (r, s1) \<Longrightarrow>
     appends_only {MatchDocuments embedding limit} s s1"
  by (auto simp: vectorSearch_operation_def appends_only_def split: reply.splits)

lemma videoSearch_try_appends:
  assumes "videoSearch_try w embeddingId limit s = (r, s')"
  shows "case embeddingCache s (embeddingId @ ''_1536'') of
           None \<Rightarrow> appends_only {} s s'
         | Some embedding \<Rightarrow> appends_only {VideoRecordings embedding limit} s s'"
proof (cases "embeddingCache s (embeddingId @ ''_1536'')")
  case None
  with assms show ?thesis by (auto simp: videoSearch_try_def appends_only_def)
next
  case (Some embedding)
  let ?s0 = "s\<lparr>activity := activity s @ [Waiting 500]\<rparr>"
  obtain r0 s0 evs where run:
    "retryOperation (videoSearch_operation w embedding limit) (''Video Search for '' @ embeddingId)
       5 2000 (Math_random w) ?s0 = (r0, s0, evs)"
    by (cases "retryOperation (videoSearch_operation w embedding limit)
       (''Video Search for '' @ embeddingId) 5 2000 (Math_random w) ?s0")
  have "appends_only {VideoRecordings embedding limit} ?s0 s0"
    by (rule retryOperation_relates[OF _ _ _ run])
      (auto intro: videoSearch_operation_appends appends_only_refl appends_only_trans)
  then have "appends_only {VideoRecordings embedding limit} s (s0\<lparr>activity := activity s0 @ evs\<rparr>)"
    by (simp add: appends_only_def)
  moreover have "s' = s0\<lparr>activity := activity s0 @ evs\<rparr>"
    using assms Some run
    by (auto simp: videoSearch_try_def Let_def split: sum.splits if_splits)
  ultimately show ?thesis using Some by simp
qed

lemma vectorSearch_try_appends:
  assumes "vectorSearch_try w embeddingId limit s = (r, s')"
  shows "case embeddingCache s (embeddingId @ ''_3072'') of
           None \<Rightarrow> appends_only {} s s'
         | Some embedding \<Rightarrow> appends_only {MatchDocuments embedding (min limit 4)} s s'"
proof (cases "embeddingCache s (embeddingId @ ''_3072'')")
  case None
  with assms show ?thesis by (auto simp: vectorSearch_try_def appends_only_def)
next
  case (Some embedding)
  let ?s0 = "s\<lparr>activity := activity s @ [Waiting 500]\<rparr>"
  obtain r0 s0 evs where run:
    "retryOperation (vectorSearch_operation w embedding (min limit 4))
       (''Vector Search for '' @ embeddingId) 5 2000 (Math_random w) ?s0 = (r0, s0, evs)"
    by (cases "retryOperation (vectorSearch_operation w embedding (min limit 4))
       (''Vector Search for '' @ embeddingId) 5 2000 (Math_random w) ?s0")
  have "appends_only {MatchDocuments embedding (min limit 4)} ?s0 s0"
    by (rule retryOperation_relates[OF _ _ _ run])
      (auto intro: vectorSearch_operation_appends appends_only_refl appends_only_trans)
  then have "appends_only {MatchDocuments embedding (min limit 4)} s
      (s0\<lparr>activity := activity s0 @ evs\<rparr>)"
    by (simp add: appends_only_def)
  moreover have "s' = s0\<lparr>activity := activity s0 @ evs\<rparr>"
    using assms Some run
    by (auto simp: vectorSearch_try_def Let_def split: sum.splits)
  ultimately show ?thesis using Some by simp
qed

lemma videoSearch_state: "snd (videoSearch w embeddingId limit_arg s) =
    snd (videoSearch_try w embeddingId (case limit_arg of None \<Rightarrow> 4 | Some l \<Rightarrow> l) s)"
  by (simp add: videoSearch_def Let_def split: prod.splits sum.splits)

lemma vectorSearch_state: "snd (vectorSearch w embeddingId limit_arg s) =
    snd (vectorSearch_try w embeddingId (case limit_arg of None \<Rightarrow> 3 | Some l \<Rightarrow> l) s)"
  by (simp add: vectorSearch_def Let_def split: prod.splits sum.splits)

subsection \<open>The videoSearch tool\<close>

lemma map_throwing_Inr:
  "(\<And>x. x \<in> set xs \<Longrightarrow> \<exists>y. f x = Inr y) \<Longrightarrow>
     \<exists>ys. map_throwing f xs = Inr ys \<and> length ys = length xs"
proof (induction xs)
  case Nil
  then show ?case by simp
next
  case (Cons x xs)
  from Cons.prems obtain y where y: "f x = Inr y" by auto
  from Cons obtain ys where "map_throwing f xs = Inr ys" "length ys = length xs" by auto
  with y show ?case by simp
qed

lemma indexed_fst: "p \<in> set (indexed xs) \<Longrightarrow> fst p \<in> set xs"
  by (cases p) (auto simp: indexed_def dest: set_zip_leftD)

lemma length_indexed: "length (indexed xs) = length xs"
  by (simp add: indexed_def)

lemma videoSearch_operation_outcome:
  "fst (videoSearch_operation w embedding limit k s) =
     (case video_recordings w k embedding limit of
        ConnectFailed m \<Rightarrow>
          Inl (Error (''Video search unavailable: '' @ m
             @ ''. Please check PostgreSQL connection and database status.''))
      | QueryFailed m \<Rightarrow>
          Inl (Error (''Video search unavailable: '' @ m
             @ ''. Please check PostgreSQL connection and database status.''))
      | Rows rows \<Rightarrow> Inr (map video_of_row rows))"
  by (simp add: videoSearch_operation_def split: reply.splits)

text \<open>A run of the loop that starts within the bound starts with an attempt.\<close>

lemma retry_loop_starts:
  assumes "a \<le> N" and run: "retry_loop operation N b rnd a le s = (r, s', evs)"
  shows "\<exists>events. evs = Attempt a # events"
proof -
  obtain res s1 where op: "operation a s = (res, s1)" by (cases "operation a s")
  show ?thesis
  proof (cases res)
    case (Inr v)
    with run assms(1) op show ?thesis by (auto simp: retry_loop_result)
  next
    case (Inl e)
    show ?thesis
    proof (cases "message_of e")
      case unreadable: (Inl t)
      with run assms(1) op Inl show ?thesis by (auto simp: retry_loop_unreadable)
    next
      case readable: (Inr m)
      show ?thesis
      proof (cases "a = N")
        case True
        with run op Inl readable show ?thesis by (auto simp: retry_loop_last)
      next
        case False
        then have lt: "a < N" using assms(1) by simp
        obtain r2 s2 evs2 where rec:
          "retry_loop operation N b rnd (Suc a) e s1 = (r2, s2, evs2)"
          by (cases "retry_loop operation N b rnd (Suc a) e s1")
        from run retry_loop_again[where s = s and le = le, OF lt _ readable rec] op Inl
        show ?thesis by auto
      qed
    qed
  qed
qed

text \<open>
  When the cache holds the vector, the tool enters the retry wrapper: after its fixed delay
  the history of the service shows the first attempt.
\<close>

lemma videoSearch_enters_retry:
  assumes "embeddingCache s (embeddingId @ ''_1536'') = Some embedding"
  shows "\<exists>events. activity (snd (videoSearch w embeddingId limit_arg s)) =
           activity s @ Waiting 500 # Attempt 1 # events"
proof -
  let ?limit = "case limit_arg of None \<Rightarrow> 4 | Some l \<Rightarrow> l"
  let ?op = "videoSearch_operation w embedding ?limit"
  let ?s0 = "s\<lparr>activity := activity s @ [Waiting 500]\<rparr>"
  obtain r0 s0 evs where run:
    "retryOperation ?op (''Video Search for '' @ embeddingId) 5 2000 (Math_random w) ?s0
       = (r0, s0, evs)"
    by (cases "retryOperation ?op (''Video Search for '' @ embeddingId) 5 2000 (Math_random w) ?s0")
  have same: "activity s0 = activity ?s0"
    by (rule retryOperation_relates[where P = "\<lambda>s s1. activity s1 = activity s", OF _ _ _ run])
      (auto simp: videoSearch_operation_def split: reply.splits)
  from run have "retry_loop ?op 5 2000 (Math_random w) 1 Undefined ?s0 = (r0, s0, evs)"
    by (simp add: retryOperation_def)
  from retry_loop_starts[OF _ this] obtain events where "evs = Attempt 1 # events"
    by auto
  moreover have "snd (videoSearch_try w embeddingId ?limit s) = s0\<lparr>activity := activity s0 @ evs\<rparr>"
    using assms run by (auto simp: videoSearch_try_def Let_def split: sum.splits if_splits)
  ultimately show ?thesis using same by (simp add: videoSearch_state)
qed

text \<open>
  C2, as the code has it. When the cache holds no 1536-dimension vector for the
  \<open>embeddingId\<close>, \<^verbatim>\<open>videoSearch\<close> waits its fixed delay of 500 milliseconds and does nothing
  else: it sends nothing to the store, makes no attempt through the retry wrapper, waits no
  back-off delay, and leaves the cache and the counter as they were. The error thrown
  inside its \<^verbatim>\<open>try\<close> block is caught by its own \<^verbatim>\<open>catch\<close> block, and the tool returns, as a
  normal result, a string that carries the message "not found in cache. Please use
  generateEmbedding first."
\<close>

theorem videoSearch_missing_embedding:
  assumes "embeddingCache s (embeddingId @ ''_1536'') = None"
  shows "videoSearch w embeddingId limit_arg s =
     (Inr (''Video search unavailable: Embedding '' @ embeddingId
           @ '' not found in cache. Please use generateEmbedding first.''
           @ ''. Please check PostgreSQL connection and database status.''),
      s\<lparr>activity := activity s @ [Waiting 500]\<rparr>)"
  using assms by (simp add: videoSearch_def videoSearch_try_def)

theorem videoSearch_missing_embedding_witness:
  "embeddingCache cached_service (''emb_2'' @ ''_1536'') = None
   \<and> videoSearch video_world ''emb_2'' (Some 9) cached_service =
       (Inr ''Video search unavailable: Embedding emb_2 not found in cache. Please use generateEmbedding first.. Please check PostgreSQL connection and database status.'',
        \<lparr>embeddingCache = [''emb_1_3072'' \<mapsto> [1 / 2, 1 / 4], ''emb_1_1536'' \<mapsto> [1 / 2]],
         embeddingCounter = 1,
         effects = [CacheClear, EmbedQuery 3072 ''pulse'', EmbedQuery 1536 ''pulse''],
         activity = [Attempt 1, Waiting 500]\<rparr>)"
proof -
  have miss: "embeddingCache cached_service (''emb_2'' @ ''_1536'') = None"
    by (simp add: cached_service_def)
  from videoSearch_missing_embedding[OF miss, of video_world "Some 9"] miss
  show ?thesis by (simp add: cached_service_def)
qed

text \<open>
  C2, as the claim states it, fails: with an empty cache the tool does not throw, it
  returns a string.
\<close>

theorem videoSearch_missing_embedding_not_thrown:
  "embeddingCache fresh_service ''emb_1_1536'' = None
   \<and> fst (videoSearch offline_world ''emb_1'' None fresh_service) =
       Inr ''Video search unavailable: Embedding emb_1 not found in cache. Please use generateEmbedding first.. Please check PostgreSQL connection and database status.''"
  by (simp add: videoSearch_def videoSearch_try_def fresh_service_def)

text \<open>
  C9. When the cache holds the 1536-dimension vector and the retried query ends with a
  round trip that yields zero rows (after any number of failed round trips, within the
  five attempts), \<^verbatim>\<open>videoSearch\<close> returns the sentinel string as a normal result.
\<close>

theorem videoSearch_no_rows_sentinel:
  assumes cached: "embeddingCache s (embeddingId @ ''_1536'') = Some embedding"
    and limit: "limit = (case limit_arg of None \<Rightarrow> 4 | Some l \<Rightarrow> l)"
    and k: "1 \<le> k" "k \<le> 5"
    and earlier: "\<forall>j. 1 \<le> j \<and> j < k \<longrightarrow> (\<forall>rows. video_recordings w j embedding limit \<noteq> Rows rows)"
    and empty: "video_recordings w k embedding limit = Rows []"
  shows "fst (videoSearch w embeddingId limit_arg s) =
     Inr ''No relevant videos found. The video database may be empty or the search terms may be too specific.''"
proof -
  let ?op = "videoSearch_operation w embedding limit"
  let ?s0 = "s\<lparr>activity := activity s @ [Waiting 500]\<rparr>"
  obtain r0 s0 evs where run:
    "retryOperation ?op (''Video Search for '' @ embeddingId) 5 2000 (Math_random w) ?s0 = (r0, s0, evs)"
    by (cases "retryOperation ?op (''Video Search for '' @ embeddingId) 5 2000 (Math_random w) ?s0")
  have fails: "throws_error_object (attempt_outcome ?op ?s0 j)" if "1 \<le> j" "j < k" for j
    using earlier that
    by (auto simp: attempt_outcome_def videoSearch_operation_outcome throws_error_object_def
        split: reply.splits)
  have last: "attempt_outcome ?op ?s0 k = Inr []"
    using empty by (simp add: attempt_outcome_def videoSearch_operation_outcome)
  have "r0 = attempt_outcome ?op ?s0 k"
    by (rule retryOperation_result(1)[OF run fails k]) (simp_all add: last)
  then have r0: "r0 = Inr []" using last by simp
  show ?thesis
    using cached run r0 limit
    by (simp add: videoSearch_def videoSearch_try_def no_videos_found_def)
qed

theorem videoSearch_no_rows_sentinel_witness:
  "fst (videoSearch video_world ''emb_1'' (Some 0) cached_service) =
     Inr ''No relevant videos found. The video database may be empty or the search terms may be too specific.''"
proof (rule videoSearch_no_rows_sentinel[where k = 2 and embedding = "[1 / 2]" and limit = 0])
  show "embeddingCache cached_service (''emb_1'' @ ''_1536'') = Some [1 / 2]"
    by (simp add: cached_service_def)
  show "(0::int) = (case Some 0 of None \<Rightarrow> 4 | Some l \<Rightarrow> l)" by simp
  show "(1::nat) \<le> 2" "(2::nat) \<le> 5" by simp_all
  show "\<forall>j. 1 \<le> j \<and> j < 2 \<longrightarrow> (\<forall>rows. video_recordings video_world j [1 / 2] 0 \<noteq> Rows rows)"
    by (simp add: video_world_def)
  show "video_recordings video_world 2 [1 / 2] 0 = Rows []"
    by (simp add: video_world_def)
qed

text \<open>
  C10. When the cache holds the 1536-dimension vector, every statement that
  \<^verbatim>\<open>videoSearch\<close> sends to the store carries the limit as the model gave it, whatever its
  size, and 4 only when the model gave none; and when the first round trip yields rows
  that all have a score, the text returned enumerates every one of them, however many.
\<close>

theorem videoSearch_limit_uncapped:
  assumes cached: "embeddingCache s (embeddingId @ ''_1536'') = Some embedding"
    and run: "videoSearch w embeddingId limit_arg s = (r, s')"
  shows "(\<exists>es. effects s' = effects s @ es
            \<and> (\<forall>e \<in> set es. e = VideoRecordings embedding
                                    (case limit_arg of None \<Rightarrow> 4 | Some l \<Rightarrow> l)))
    \<and> (\<forall>rows. video_recordings w 1 embedding (case limit_arg of None \<Rightarrow> 4 | Some l \<Rightarrow> l)
                 = Rows rows
               \<and> rows \<noteq> [] \<and> (\<forall>row \<in> set rows. row_video_score row \<noteq> None)
          \<longrightarrow> (\<exists>texts. length texts = length rows
                 \<and> r = Inr (videoToolResponse (length rows) texts)))"
proof -
  let ?limit = "case limit_arg of None \<Rightarrow> 4 | Some l \<Rightarrow> l"
  let ?op = "videoSearch_operation w embedding ?limit"
  let ?s0 = "s\<lparr>activity := activity s @ [Waiting 500]\<rparr>"
  obtain r1 s1 where tr: "videoSearch_try w embeddingId ?limit s = (r1, s1)"
    by (cases "videoSearch_try w embeddingId ?limit s")
  have s': "s' = s1" using run tr videoSearch_state[of w embeddingId limit_arg s] by simp
  from videoSearch_try_appends[OF tr] cached
  have "appends_only {VideoRecordings embedding ?limit} s s1" by simp
  then have A: "\<exists>es. effects s' = effects s @ es
            \<and> (\<forall>e \<in> set es. e = VideoRecordings embedding ?limit)"
    using s' by (auto simp: appends_only_def)
  have B: "\<exists>texts. length texts = length rows \<and> r = Inr (videoToolResponse (length rows) texts)"
    if rows: "video_recordings w 1 embedding ?limit = Rows rows \<and> rows \<noteq> []
        \<and> (\<forall>row \<in> set rows. row_video_score row \<noteq> None)" for rows
  proof -
    obtain sa where op1: "?op 1 ?s0 = (Inr (map video_of_row rows), sa)"
      using rows by (simp add: videoSearch_operation_def)
    have retry: "retryOperation ?op (''Video Search for '' @ embeddingId) 5 2000 (Math_random w) ?s0
        = (Inr (map video_of_row rows), sa, [Attempt 1])"
      using retryOperation_first_success[of ?op ?s0 "map video_of_row rows" sa 5] op1 by simp
    have "\<exists>texts. map_throwing (video_text w) (indexed (map video_of_row rows)) = Inr texts
        \<and> length texts = length (indexed (map video_of_row rows))"
    proof (rule map_throwing_Inr)
      fix p assume "p \<in> set (indexed (map video_of_row rows))"
      then have "fst p \<in> set (map video_of_row rows)" by (rule indexed_fst)
      then obtain sc where "video_score (fst p) = Some sc"
        using rows by (auto simp: video_of_row_def)
      then show "\<exists>y. video_text w p = Inr y"
        by (cases p) (simp add: video_text_def)
    qed
    then obtain texts where
      texts: "map_throwing (video_text w) (indexed (map video_of_row rows)) = Inr texts"
      and len: "length texts = length rows" by (auto simp: length_indexed)
    have "fst (videoSearch w embeddingId limit_arg s) = Inr (videoToolResponse (length rows) texts)"
      using cached retry texts rows
      by (simp add: videoSearch_def videoSearch_try_def)
    then show ?thesis using run len by auto
  qed
  from A B show ?thesis by blast
qed

theorem videoSearch_limit_uncapped_witness:
  "\<exists>r s' texts. videoSearch (video_world\<lparr>video_recordings := (\<lambda>k v l. Rows (map segment [0 ..< nat l]))\<rparr>)
                  ''emb_1'' (Some 6) cached_service = (r, s')
     \<and> set (drop (length (effects cached_service)) (effects s')) \<subseteq> {VideoRecordings [1 / 2] 6}
     \<and> length texts = 6 \<and> r = Inr (videoToolResponse 6 texts)"
proof -
  let ?w = "video_world\<lparr>video_recordings := (\<lambda>k v l. Rows (map segment [0 ..< nat l]))\<rparr>"
  obtain r s' where run: "videoSearch ?w ''emb_1'' (Some 6) cached_service = (r, s')"
    by (cases "videoSearch ?w ''emb_1'' (Some 6) cached_service")
  have cached: "embeddingCache cached_service (''emb_1'' @ ''_1536'') = Some [1 / 2]"
    by (simp add: cached_service_def)
  note u = videoSearch_limit_uncapped[OF cached run]
  from u[THEN conjunct1] have eff:
    "set (drop (length (effects cached_service)) (effects s')) \<subseteq> {VideoRecordings [1 / 2] 6}"
    by auto
  have rows: "video_recordings ?w 1 [1 / 2] (case Some 6 of None \<Rightarrow> 4 | Some l \<Rightarrow> l)
        = Rows (map segment [0 ..< 6])
      \<and> map segment [0 ..< 6] \<noteq> []
      \<and> (\<forall>row \<in> set (map segment [0 ..< 6]). row_video_score row \<noteq> None)"
    by (simp add: segment_def del: not_None_eq)
  from u[THEN conjunct2, rule_format, OF rows] obtain texts where
    "length texts = 6" "r = Inr (videoToolResponse 6 texts)" by auto
  with run eff show ?thesis by blast
qed

subsection \<open>The vectorSearch tool\<close>

lemma map_throwing_length: "map_throwing f xs = Inr ys \<Longrightarrow> length ys = length xs"
  by (induction xs arbitrary: ys) (auto split: sum.splits)

lemma vectorSearch_respond_shape:
  assumes "vectorSearch_respond w rows = Inr response"
  shows "\<exists>texts. length texts = length rows \<and> response = toolResponse (length texts) texts"
proof -
  from assms obtain results formattedResults texts where
    1: "map_throwing (result_of_row w) rows = Inr results"
    and 2: "map_throwing formatted_result (indexed results) = Inr formattedResults"
    and 3: "map_throwing (document_text w) (indexed results) = Inr texts"
    and 4: "response = toolResponse (length results) texts"
    by (auto simp: vectorSearch_respond_def split: sum.splits)
  have "length results = length rows" using 1 by (rule map_throwing_length)
  moreover have "length texts = length results"
    using map_throwing_length[OF 3] by (simp add: length_indexed)
  ultimately show ?thesis using 4 by (intro exI[of _ texts]) simp
qed

text \<open>
  C4. Whatever limit the model asks for, every statement that \<^verbatim>\<open>vectorSearch\<close> sends to
  \<^verbatim>\<open>match_documents\<close> carries the limit \<open>min limit 4\<close>, which is at most 4 (3 is the limit
  when the model gives none). So when the store returns no more rows than the limit it is
  given, a text returned by the tool enumerates at most 4 passages.
\<close>

theorem vectorSearch_limit_capped:
  assumes run: "vectorSearch w embeddingId limit_arg s = (r, s')"
  shows "(\<exists>es. effects s' = effects s @ es
            \<and> (\<forall>e \<in> set es. \<exists>v l. e = MatchDocuments v l \<and> l \<le> 4
                   \<and> l = min (case limit_arg of None \<Rightarrow> 3 | Some l \<Rightarrow> l) 4))
    \<and> ((\<forall>k v l rows. match_documents w k v l = Rows rows \<longrightarrow> int (length rows) \<le> l)
          \<longrightarrow> (\<forall>response. r = Inr response
                 \<longrightarrow> (\<exists>texts. length texts \<le> 4
                        \<and> response = toolResponse (length texts) texts)))"
proof -
  let ?limit = "case limit_arg of None \<Rightarrow> 3 | Some l \<Rightarrow> l"
  obtain r1 s1 where tr: "vectorSearch_try w embeddingId ?limit s = (r1, s1)"
    by (cases "vectorSearch_try w embeddingId ?limit s")
  have s': "s' = s1" using run tr vectorSearch_state[of w embeddingId limit_arg s] by simp
  have A: "\<exists>es. effects s' = effects s @ es
            \<and> (\<forall>e \<in> set es. \<exists>v l. e = MatchDocuments v l \<and> l \<le> 4 \<and> l = min ?limit 4)"
  proof (cases "embeddingCache s (embeddingId @ ''_3072'')")
    case None
    with vectorSearch_try_appends[OF tr] s' have "appends_only {} s s'" by simp
    then show ?thesis by (auto simp: appends_only_def)
  next
    case (Some embedding)
    with vectorSearch_try_appends[OF tr] s'
    have "appends_only {MatchDocuments embedding (min ?limit 4)} s s'" by simp
    then show ?thesis by (auto simp: appends_only_def)
  qed
  have B: "\<exists>texts. length texts \<le> 4 \<and> response = toolResponse (length texts) texts"
    if store: "\<forall>k v l rows. match_documents w k v l = Rows rows \<longrightarrow> int (length rows) \<le> l"
      and r: "r = Inr response" for response
  proof -
    from run r tr have r1: "r1 = Inr response"
      by (auto simp: vectorSearch_def Let_def split: sum.splits)
    from tr r1 obtain embedding where
      cached: "embeddingCache s (embeddingId @ ''_3072'') = Some embedding"
      by (cases "embeddingCache s (embeddingId @ ''_3072'')") (auto simp: vectorSearch_try_def)
    let ?op = "vectorSearch_operation w embedding (min ?limit 4)"
    let ?s0 = "s\<lparr>activity := activity s @ [Waiting 500]\<rparr>"
    obtain r0 s0 evs where retry:
      "retryOperation ?op (''Vector Search for '' @ embeddingId) 5 2000 (Math_random w) ?s0
         = (r0, s0, evs)"
      by (cases "retryOperation ?op (''Vector Search for '' @ embeddingId) 5 2000 (Math_random w) ?s0")
    from tr r1 cached retry obtain rows where
      r0: "r0 = Inr rows" and resp: "vectorSearch_respond w rows = Inr response"
      by (auto simp: vectorSearch_try_def Let_def split: sum.splits)
    from retry r0 have "retry_loop ?op 5 2000 (Math_random w) 1 Undefined ?s0 = (Inr rows, s0, evs)"
      by (simp add: retryOperation_def)
    from retry_loop_success[OF this] obtain k sk where "?op k sk = (Inr rows, s0)" by blast
    then have "match_documents w k embedding (min ?limit 4) = Rows rows"
      by (auto simp: vectorSearch_operation_def split: reply.splits)
    with store have "int (length rows) \<le> min ?limit 4" by blast
    then have "length rows \<le> 4" by simp
    moreover from vectorSearch_respond_shape[OF resp] obtain texts where
      "length texts = length rows" "response = toolResponse (length texts) texts" by blast
    ultimately show ?thesis by (intro exI[of _ texts]) simp
  qed
  from A B show ?thesis by blast
qed

theorem vectorSearch_limit_capped_witness:
  "\<exists>s' texts. vectorSearch library_world ''emb_1'' (Some 50) cached_service =
       (Inr (toolResponse (length texts) texts), s')
     \<and> length texts \<le> 4
     \<and> set (drop (length (effects cached_service)) (effects s')) \<subseteq> {MatchDocuments [1 / 2, 1 / 4] 4}"
proof -
  obtain r s' where run: "vectorSearch library_world ''emb_1'' (Some 50) cached_service = (r, s')"
    by (cases "vectorSearch library_world ''emb_1'' (Some 50) cached_service")
  note c = vectorSearch_limit_capped[OF run]
  have store: "\<forall>k v l rows. match_documents library_world k v l = Rows rows
      \<longrightarrow> int (length rows) \<le> l"
    by (auto simp: library_world_def offline_world_def split: if_splits)
  let ?s0 = "cached_service\<lparr>activity := activity cached_service @ [Waiting 500]\<rparr>"
  have op1: "vectorSearch_operation library_world [1 / 2, 1 / 4] 4 1 ?s0 =
      (Inr (replicate 4 (passage ''Radial pulse.'')),
       ?s0\<lparr>effects := effects ?s0 @ [MatchDocuments [1 / 2, 1 / 4] 4]\<rparr>)"
    by (simp add: vectorSearch_operation_def library_world_def)
  have tr: "vectorSearch_try library_world ''emb_1'' 50 cached_service =
      (vectorSearch_respond library_world (replicate 4 (passage ''Radial pulse.'')),
       cached_service\<lparr>effects := effects cached_service @ [MatchDocuments [1 / 2, 1 / 4] 4],
                      activity := activity cached_service @ [Waiting 500, Attempt 1]\<rparr>)"
    using retryOperation_first_success[where
        operation = "vectorSearch_operation library_world [1 / 2, 1 / 4] 4"
        and s = ?s0 and N = 5, OF op1]
    by (simp add: vectorSearch_try_def cached_service_def)
  have "\<exists>texts. map_throwing (document_text library_world)
          (indexed (replicate 4 \<lparr>result_id = ''doc_1'', content = ''Radial pulse.'',
             metadata = Some \<lparr>book = None, book_title = Some ''Fundamentals of Nursing'',
               book_id = Some ''book_7'', chapter_title = None, page_number = None,
               page_start = Some 120, page_end = Some 121, paragraph_number = None\<rparr>,
             score = 9 / 10\<rparr>)) = Inr texts \<and> length texts = length (indexed (replicate 4
               \<lparr>result_id = ''doc_1'', content = ''Radial pulse.'',
             metadata = Some \<lparr>book = None, book_title = Some ''Fundamentals of Nursing'',
               book_id = Some ''book_7'', chapter_title = None, page_number = None,
               page_start = Some 120, page_end = Some 121, paragraph_number = None\<rparr>,
             score = 9 / 10\<rparr>))"
    by (rule map_throwing_Inr) (auto simp: document_text_def dest!: indexed_fst)
  then obtain texts0 where texts0: "map_throwing (document_text library_world)
          (indexed (replicate 4 \<lparr>result_id = ''doc_1'', content = ''Radial pulse.'',
             metadata = Some \<lparr>book = None, book_title = Some ''Fundamentals of Nursing'',
               book_id = Some ''book_7'', chapter_title = None, page_number = None,
               page_start = Some 120, page_end = Some 121, paragraph_number = None\<rparr>,
             score = 9 / 10\<rparr>)) = Inr texts0" by blast
  have "\<exists>fs. map_throwing formatted_result
          (indexed (replicate 4 \<lparr>result_id = ''doc_1'', content = ''Radial pulse.'',
             metadata = Some \<lparr>book = None, book_title = Some ''Fundamentals of Nursing'',
               book_id = Some ''book_7'', chapter_title = None, page_number = None,
               page_start = Some 120, page_end = Some 121, paragraph_number = None\<rparr>,
             score = 9 / 10\<rparr>)) = Inr fs \<and> length fs = length (indexed (replicate 4
               \<lparr>result_id = ''doc_1'', content = ''Radial pulse.'',
             metadata = Some \<lparr>book = None, book_title = Some ''Fundamentals of Nursing'',
               book_id = Some ''book_7'', chapter_title = None, page_number = None,
               page_start = Some 120, page_end = Some 121, paragraph_number = None\<rparr>,
             score = 9 / 10\<rparr>))"
    by (rule map_throwing_Inr) (auto simp: formatted_result_def dest!: indexed_fst)
  then obtain fs where fs: "map_throwing formatted_result
          (indexed (replicate 4 \<lparr>result_id = ''doc_1'', content = ''Radial pulse.'',
             metadata = Some \<lparr>book = None, book_title = Some ''Fundamentals of Nursing'',
               book_id = Some ''book_7'', chapter_title = None, page_number = None,
               page_start = Some 120, page_end = Some 121, paragraph_number = None\<rparr>,
             score = 9 / 10\<rparr>)) = Inr fs" by blast
  have rows: "map_throwing (result_of_row library_world) (replicate 4 (passage ''Radial pulse.''))
      = Inr (replicate 4 \<lparr>result_id = ''doc_1'', content = ''Radial pulse.'',
             metadata = Some \<lparr>book = None, book_title = Some ''Fundamentals of Nursing'',
               book_id = Some ''book_7'', chapter_title = None, page_number = None,
               page_start = Some 120, page_end = Some 121, paragraph_number = None\<rparr>,
             score = 9 / 10\<rparr>)"
    by (simp add: numeral_eq_Suc result_of_row_def passage_def str_or_def real_or_def)
  have "\<exists>response. r = Inr response"
    using run tr rows fs texts0
    by (auto simp: vectorSearch_def vectorSearch_respond_def)
  then obtain response where r: "r = Inr response" by blast
  from c[THEN conjunct2] store r obtain texts where
    "length texts \<le> 4" "response = toolResponse (length texts) texts" by blast
  moreover from c[THEN conjunct1] have
    "set (drop (length (effects cached_service)) (effects s')) \<subseteq> {MatchDocuments [1 / 2, 1 / 4] 4}"
    using tr run vectorSearch_state[of library_world "''emb_1''" "Some 50" cached_service]
    by (simp add: cached_service_def)
  ultimately show ?thesis using run r by blast
qed
text \<open>\<^verbatim>\<open>truncateContent\<close> itself keeps its bound: at most \<open>maxLength\<close> characters and the ellipsis.\<close>

lemma truncateContent_length:
  "length (truncateContent text maxLength) \<le> maxLength + 3"
  by (simp add: truncateContent_def substring_def)

lemma truncateContent_long:
  "maxLength < length text \<Longrightarrow>
     truncateContent text maxLength = take maxLength text @ ''...''"
  by (auto simp: truncateContent_def substring_def)

text \<open>
  C1 does not hold of the code. The truncated content is computed into
  \<^verbatim>\<open>formattedResults\<close>, which is not used again; the text returned is built from
  \<^verbatim>\<open>results\<close>, with the content of each row in full. For a row whose content has 600
  characters, the text returned holds all 600 of them, where the truncated content would
  be 500 characters and the ellipsis.
\<close>

theorem vectorSearch_returns_full_content:
  \<open>fst (vectorSearch long_passage_world ''emb_1'' None cached_service) =
     Inr (toolResponse 1
       [''1. [Score: 0.900]\<newline>  Book: "Fundamentals of Nursing" \<newline>  Book ID: "book_7"\<newline>  Pages: 120 - 121\<newline>  \<newline>  **FULL CONTENT:**\<newline>  ''
        @ long_passage
        @ ''\<newline>  \<newline>  **Reference to include in JSON:** \<newline>  {\<newline>    "book_title": "Fundamentals of Nursing",\<newline>    "book_id": "book_7",\<newline>    "page_start": 120,\<newline>    "page_end": 121\<newline>  }''])
   \<and> length long_passage = 600
   \<and> truncateContent long_passage 500 = replicate 500 CHR ''x'' @ ''...''\<close>
proof -
  have len: "length long_passage = 600" by (simp add: long_passage_def)
  have ne: "long_passage \<noteq> []" using len by auto
  have trunc: "truncateContent long_passage 500 = replicate 500 CHR ''x'' @ ''...''"
    using truncateContent_long[of 500 long_passage] len by (simp add: long_passage_def)
  let ?s0 = "cached_service\<lparr>activity := activity cached_service @ [Waiting 500]\<rparr>"
  have op1: "vectorSearch_operation long_passage_world [1 / 2, 1 / 4] 3 1 ?s0 =
      (Inr [passage long_passage],
       ?s0\<lparr>effects := effects ?s0 @ [MatchDocuments [1 / 2, 1 / 4] 3]\<rparr>)"
    by (simp add: vectorSearch_operation_def long_passage_world_def)
  have tr: "vectorSearch_try long_passage_world ''emb_1'' 3 cached_service =
      (vectorSearch_respond long_passage_world [passage long_passage],
       cached_service\<lparr>effects := effects cached_service @ [MatchDocuments [1 / 2, 1 / 4] 3],
                      activity := activity cached_service @ [Waiting 500, Attempt 1]\<rparr>)"
    using retryOperation_first_success[where
        operation = "vectorSearch_operation long_passage_world [1 / 2, 1 / 4] 3"
        and s = ?s0 and N = 5, OF op1]
    by (simp add: vectorSearch_try_def cached_service_def)
  have resp: \<open>vectorSearch_respond long_passage_world [passage long_passage] =
     Inr (toolResponse 1
       [''1. [Score: 0.900]\<newline>  Book: "Fundamentals of Nursing" \<newline>  Book ID: "book_7"\<newline>  Pages: 120 - 121\<newline>  \<newline>  **FULL CONTENT:**\<newline>  ''
        @ long_passage
        @ ''\<newline>  \<newline>  **Reference to include in JSON:** \<newline>  {\<newline>    "book_title": "Fundamentals of Nursing",\<newline>    "book_id": "book_7",\<newline>    "page_start": 120,\<newline>    "page_end": 121\<newline>  }''])\<close>
    using ne
    by (simp add: vectorSearch_respond_def result_of_row_def passage_def formatted_result_def
        document_text_def indexed_def str_or_def int_or_def real_or_def show_int_def
        show_nat.simps long_passage_world_def offline_world_def)
  show ?thesis using tr resp len trunc by (simp add: vectorSearch_def)
qed

subsection \<open>The response validator\<close>

lemma trim_empty_iff: "trim d = [] \<longleftrightarrow> (\<forall>c \<in> set d. is_white_space c)"
proof
  assume "trim d = []"
  then have "dropWhile is_white_space (rev (dropWhile is_white_space d)) = []"
    by (simp add: trim_def)
  then have all: "\<forall>c \<in> set (dropWhile is_white_space d). is_white_space c"
    by (simp add: dropWhile_eq_Nil_conv)
  have "dropWhile is_white_space d = []"
  proof (rule ccontr)
    assume ne: "dropWhile is_white_space d \<noteq> []"
    then have "\<not> is_white_space (hd (dropWhile is_white_space d))" by (rule hd_dropWhile)
    moreover have "hd (dropWhile is_white_space d) \<in> set (dropWhile is_white_space d)"
      using ne by simp
    ultimately show False using all by blast
  qed
  then show "\<forall>c \<in> set d. is_white_space c" by (simp add: dropWhile_eq_Nil_conv)
next
  assume "\<forall>c \<in> set d. is_white_space c"
  then have a: "dropWhile is_white_space d = []" by (simp add: dropWhile_eq_Nil_conv)
  show "trim d = []" unfolding trim_def a by simp
qed

lemma nested_valid_records:
  "list_all (\<lambda>x. case x of JObject kvs \<Rightarrow> cls kvs | _ \<Rightarrow> False) xs \<Longrightarrow>
     list_all (nested_valid cls) xs"
  by (induction xs) (auto split: json.splits)

lemma array_of_records_no_errors:
  "array_of_records cls v \<Longrightarrow> nested_array_errors name cls v = []"
  by (auto simp: array_of_records_def nested_array_errors_def nested_valid_records
      split: option.splits json.splits)

lemma validation_error_wrapped:
  "validate_try response = Inl (Error m) \<Longrightarrow>
     validateAndTransformResponse response = Inl (LLMGenerationError (''Invalid response format: '' @ m))"
  by (simp add: validateAndTransformResponse_def)

lemma validate_try_object:
  "validate_try (JObject kvs) =
     (if validate (plainToClass kvs) \<noteq> []
      then Inl (Error (''Validation failed: ''
             @ join ''; '' (map error_text (validate (plainToClass kvs)))))
      else if answer_out_of_range (property kvs ''answer'')
      then Inl (Error ''Answer must be between 0 and 3 (0-based index for options A-D)'')
      else if description_empty (property kvs ''ans_description'')
      then Inl (Error ''Answer description cannot be empty'')
      else Inr (plainToClass kvs))"
  by (simp add: validate_try_def Let_def plainToClass_def)

lemma validate_answer: "validate (plainToClass kvs) = [] \<Longrightarrow> IsNumber (property kvs ''answer'')"
  by (auto simp: validate_def plainToClass_def scalar_errors_def split: if_splits)

lemma validate_description:
  "validate (plainToClass kvs) = [] \<Longrightarrow> IsString (property kvs ''ans_description'')"
  by (auto simp: validate_def plainToClass_def scalar_errors_def split: if_splits)

text \<open>
  C5. For a parsed response object: when \<^verbatim>\<open>answer\<close> is one of 0, 1, 2, 3, \<^verbatim>\<open>ans_description\<close>
  is a string with a character that is not white space, and \<^verbatim>\<open>references\<close>,
  \<^verbatim>\<open>video_references\<close> and \<^verbatim>\<open>images\<close> are arrays of well-formed records, validation
  succeeds and returns the object; when \<^verbatim>\<open>answer\<close> is not a number between 0 and 3 (so
  when it is 4 or -1), or when \<^verbatim>\<open>ans_description\<close> is not a string with a character that
  is not white space (so when it is empty or blank), validation fails with the error
  "Invalid response format: \<dots>".
\<close>

theorem validateAndTransformResponse_accepts_and_rejects:
  "(property kvs ''answer'' = Some (JNumber a) \<and> a \<in> {0, 1, 2, 3}
      \<and> property kvs ''ans_description'' = Some (JString d) \<and> (\<exists>c \<in> set d. \<not> is_white_space c)
      \<and> array_of_records ReferenceDto (property kvs ''references'')
      \<and> array_of_records VideoReferenceDto (property kvs ''video_references'')
      \<and> array_of_records ImageDto (property kvs ''images'')
      \<longrightarrow> validateAndTransformResponse (JObject kvs) = Inr (plainToClass kvs))
   \<and> ((\<forall>x. property kvs ''answer'' = Some (JNumber x) \<longrightarrow> x < 0 \<or> 3 < x)
      \<longrightarrow> (\<exists>m. validateAndTransformResponse (JObject kvs)
                  = Inl (LLMGenerationError (''Invalid response format: '' @ m))))
   \<and> ((\<forall>t. property kvs ''ans_description'' = Some (JString t) \<longrightarrow> (\<forall>c \<in> set t. is_white_space c))
      \<longrightarrow> (\<exists>m. validateAndTransformResponse (JObject kvs)
                  = Inl (LLMGenerationError (''Invalid response format: '' @ m))))"
proof (intro conjI impI)
  assume ok: "property kvs ''answer'' = Some (JNumber a) \<and> a \<in> {0, 1, 2, 3}
      \<and> property kvs ''ans_description'' = Some (JString d) \<and> (\<exists>c \<in> set d. \<not> is_white_space c)
      \<and> array_of_records ReferenceDto (property kvs ''references'')
      \<and> array_of_records VideoReferenceDto (property kvs ''video_references'')
      \<and> array_of_records ImageDto (property kvs ''images'')"
  then have "validate (plainToClass kvs) = []"
    by (simp add: validate_def plainToClass_def scalar_errors_def array_of_records_no_errors)
  moreover have "\<not> answer_out_of_range (property kvs ''answer'')" using ok by auto
  moreover have "trim d \<noteq> []" using ok by (auto simp: trim_empty_iff)
  then have "\<not> description_empty (property kvs ''ans_description'')" using ok by auto
  ultimately have "validate_try (JObject kvs) = Inr (plainToClass kvs)"
    by (simp add: validate_try_object)
  then show "validateAndTransformResponse (JObject kvs) = Inr (plainToClass kvs)"
    by (simp add: validateAndTransformResponse_def)
next
  assume bad: "\<forall>x. property kvs ''answer'' = Some (JNumber x) \<longrightarrow> x < 0 \<or> 3 < x"
  have "\<exists>m. validate_try (JObject kvs) = Inl (Error m)"
  proof (cases "validate (plainToClass kvs) = []")
    case False
    then show ?thesis by (simp add: validate_try_object)
  next
    case True
    then have "IsNumber (property kvs ''answer'')" by (rule validate_answer)
    then obtain x where x: "property kvs ''answer'' = Some (JNumber x)"
      by (cases "property kvs ''answer''" rule: IsNumber.cases) auto
    with bad have "answer_out_of_range (property kvs ''answer'')" by auto
    with True show ?thesis by (simp add: validate_try_object)
  qed
  then show "\<exists>m. validateAndTransformResponse (JObject kvs)
      = Inl (LLMGenerationError (''Invalid response format: '' @ m))"
    using validation_error_wrapped by blast
next
  assume bad: "\<forall>t. property kvs ''ans_description'' = Some (JString t)
      \<longrightarrow> (\<forall>c \<in> set t. is_white_space c)"
  have "\<exists>m. validate_try (JObject kvs) = Inl (Error m)"
  proof (cases "validate (plainToClass kvs) = []")
    case False
    then show ?thesis by (simp add: validate_try_object)
  next
    case True
    then have "IsString (property kvs ''ans_description'')" by (rule validate_description)
    then obtain t where t: "property kvs ''ans_description'' = Some (JString t)"
      by (cases "property kvs ''ans_description''" rule: IsString.cases) auto
    with bad have "trim t = []" by (simp add: trim_empty_iff)
    with t have "description_empty (property kvs ''ans_description'')" by simp
    with True show ?thesis by (simp add: validate_try_object)
  qed
  then show "\<exists>m. validateAndTransformResponse (JObject kvs)
      = Inl (LLMGenerationError (''Invalid response format: '' @ m))"
    using validation_error_wrapped by blast
qed

theorem validateAndTransformResponse_accepts_and_rejects_witness:
  "validateAndTransformResponse (JObject good_response) = Inr (plainToClass good_response)
   \<and> answer (plainToClass good_response) = Some (JNumber 2)
   \<and> (\<exists>m. validateAndTransformResponse (JObject answer_four_response)
            = Inl (LLMGenerationError (''Invalid response format: '' @ m)))
   \<and> (\<exists>m. validateAndTransformResponse (JObject blank_description_response)
            = Inl (LLMGenerationError (''Invalid response format: '' @ m)))"
proof -
  have good: "property good_response ''answer'' = Some (JNumber 2) \<and> (2::real) \<in> {0, 1, 2, 3}
      \<and> property good_response ''ans_description''
          = Some (JString ''The radial pulse is counted for a full minute.'')
      \<and> (\<exists>c \<in> set ''The radial pulse is counted for a full minute.''. \<not> is_white_space c)
      \<and> array_of_records ReferenceDto (property good_response ''references'')
      \<and> array_of_records VideoReferenceDto (property good_response ''video_references'')
      \<and> array_of_records ImageDto (property good_response ''images'')"
    by (simp add: good_response_def property_def array_of_records_def ReferenceDto_def
        VideoReferenceDto_def ImageDto_def is_white_space_def)
  have four: "\<forall>x. property answer_four_response ''answer'' = Some (JNumber x) \<longrightarrow> x < 0 \<or> 3 < x"
    by (simp add: answer_four_response_def good_response_def property_def)
  have blank: "\<forall>t. property blank_description_response ''ans_description'' = Some (JString t)
      \<longrightarrow> (\<forall>c \<in> set t. is_white_space c)"
    by (auto simp: blank_description_response_def good_response_def property_def
        is_white_space_def)
  from validateAndTransformResponse_accepts_and_rejects[of good_response 2
      "''The radial pulse is counted for a full minute.''", THEN conjunct1] good
  have 1: "validateAndTransformResponse (JObject good_response) = Inr (plainToClass good_response)"
    by blast
  have 2: "answer (plainToClass good_response) = Some (JNumber 2)"
    using good by (simp add: plainToClass_def)
  from validateAndTransformResponse_accepts_and_rejects[of answer_four_response,
      THEN conjunct2, THEN conjunct1] four
  have 3: "\<exists>m. validateAndTransformResponse (JObject answer_four_response)
            = Inl (LLMGenerationError (''Invalid response format: '' @ m))" by blast
  from validateAndTransformResponse_accepts_and_rejects[of blank_description_response,
      THEN conjunct2, THEN conjunct2] blank
  have 4: "\<exists>m. validateAndTransformResponse (JObject blank_description_response)
            = Inl (LLMGenerationError (''Invalid response format: '' @ m))" by blast
  from 1 2 3 4 show ?thesis by blast
qed

subsection \<open>The generateEmbedding tool\<close>

text \<open>The decimal digits determine the number, so the ids of two counters differ.\<close>

lemma show_nat_nonempty: "show_nat n \<noteq> []"
  by (subst show_nat.simps) simp

lemma digit_inj:
  assumes "n < 10" "m < 10" "''0123456789'' ! n = ''0123456789'' ! m"
  shows "n = m"
proof -
  have "distinct ''0123456789''" by simp
  moreover have "n < length ''0123456789''" "m < length ''0123456789''" using assms by simp_all
  ultimately show ?thesis using assms(3) by (simp only: nth_eq_iff_index_eq)
qed

lemma show_nat_inj: "show_nat n = show_nat m \<Longrightarrow> n = m"
proof (induction n arbitrary: m rule: show_nat.induct)
  case (1 n)
  show ?case
  proof (cases "n < 10")
    case True
    then have n1: "show_nat n = [''0123456789'' ! n]" by (subst show_nat.simps) simp
    show ?thesis
    proof (cases "m < 10")
      case m: True
      then have "show_nat m = [''0123456789'' ! m]" by (subst show_nat.simps) simp
      with n1 "1.prems" have "''0123456789'' ! n = ''0123456789'' ! m" by simp
      with True m show ?thesis by (rule digit_inj)
    next
      case False
      then have "show_nat m = show_nat (m div 10) @ [''0123456789'' ! (m mod 10)]"
        by (subst show_nat.simps) simp
      with n1 "1.prems" show_nat_nonempty[of "m div 10"] show ?thesis by simp
    qed
  next
    case False
    then have n2: "show_nat n = show_nat (n div 10) @ [''0123456789'' ! (n mod 10)]"
      by (subst show_nat.simps) simp
    show ?thesis
    proof (cases "m < 10")
      case True
      then have "show_nat m = [''0123456789'' ! m]" by (subst show_nat.simps) simp
      with n2 "1.prems" show_nat_nonempty[of "n div 10"] show ?thesis by simp
    next
      case m: False
      then have "show_nat m = show_nat (m div 10) @ [''0123456789'' ! (m mod 10)]"
        by (subst show_nat.simps) simp
      with n2 "1.prems" have eq: "show_nat (n div 10) = show_nat (m div 10)"
        and d: "''0123456789'' ! (n mod 10) = ''0123456789'' ! (m mod 10)" by simp_all
      from "1.IH"[OF False eq] have "n div 10 = m div 10" .
      moreover have "n mod 10 = m mod 10" by (rule digit_inj[OF _ _ d]) simp_all
      ultimately show ?thesis by (metis div_mult_mod_eq)
    qed
  qed
qed

lemma generateEmbedding_operation_failure:
  "generateEmbedding_operation w text k s = (Inl e, s1) \<Longrightarrow>
     embeddingCache s1 = embeddingCache s \<and> embeddingCounter s1 = embeddingCounter s"
  by (auto simp: generateEmbedding_operation_def Let_def split: sum.splits)

lemma generateEmbedding_operation_counter:
  "generateEmbedding_operation w text k s = (r, s1) \<Longrightarrow>
     embeddingCounter s \<le> embeddingCounter s1"
  by (auto simp: generateEmbedding_operation_def Let_def split: sum.splits)

text \<open>
  C6. A \<^verbatim>\<open>generateEmbedding\<close> invocation never lowers the counter. When it succeeds, one of
  its at most five attempts got both vectors from the provider; the counter is one more
  than before; the id is \<open>emb_\<close> followed by the new counter, an id that no other counter
  value gives; the cache is the cache of before with the 3072-dimension vector stored
  under the id with the tag \<open>_3072\<close> and the 1536-dimension vector under the id with the
  tag \<open>_1536\<close>; and the value returned consists of the id, the two lengths and a message
  made of the id and the two lengths, with no component of a vector in it.
\<close>

theorem generateEmbedding_caches_and_returns_metadata:
  assumes run: "generateEmbedding w text s = (r, s')"
  shows "embeddingCounter s \<le> embeddingCounter s'
    \<and> (\<forall>info. r = Inr info \<longrightarrow>
         (\<exists>k embedding3072 embedding1536. 1 \<le> k \<and> k \<le> 5
            \<and> embeddings_embedQuery w k text = Inr embedding3072
            \<and> videoEmbeddings_embedQuery w k text = Inr embedding1536
            \<and> embeddingCounter s' = embeddingCounter s + 1
            \<and> info_embeddingId info = ''emb_'' @ show_nat (embeddingCounter s')
            \<and> (\<forall>c. c \<noteq> embeddingCounter s' \<longrightarrow> ''emb_'' @ show_nat c \<noteq> info_embeddingId info)
            \<and> embeddingCache s' =
                 (embeddingCache s)(info_embeddingId info @ ''_3072'' \<mapsto> embedding3072,
                                    info_embeddingId info @ ''_1536'' \<mapsto> embedding1536)
            \<and> embeddingCache s' (info_embeddingId info @ ''_3072'') = Some embedding3072
            \<and> embeddingCache s' (info_embeddingId info @ ''_1536'') = Some embedding1536
            \<and> info = \<lparr>info_embeddingId = ''emb_'' @ show_nat (embeddingCounter s'),
                       info_dimensions = \<lparr>dim_books = length embedding3072,
                                          dim_videos = length embedding1536\<rparr>,
                       info_message = ''Dual embeddings generated and cached as ''
                         @ ''emb_'' @ show_nat (embeddingCounter s') @ '': ''
                         @ show_nat (length embedding3072) @ ''D for books, ''
                         @ show_nat (length embedding1536) @ ''D for videos''\<rparr>))"
proof -
  let ?op = "generateEmbedding_operation w text"
  let ?name = "''Embedding Generation ('' @ substring text 0 30 @ ''...)''"
  obtain r0 s0 evs where retry:
    "retryOperation ?op ?name 5 2000 (Math_random w) s = (r0, s0, evs)"
    by (cases "retryOperation ?op ?name 5 2000 (Math_random w) s")
  with run have r0: "r0 = r" and s0: "s' = s0\<lparr>activity := activity s0 @ evs\<rparr>"
    by (simp_all add: generateEmbedding_def)
  have "embeddingCounter s \<le> embeddingCounter s0"
    by (rule retryOperation_relates[where P = "\<lambda>s s1. embeddingCounter s \<le> embeddingCounter s1",
          OF _ _ _ retry])
      (auto dest: generateEmbedding_operation_counter)
  then have A: "embeddingCounter s \<le> embeddingCounter s'"
    by (simp add: s0)
  have B: "\<exists>k embedding3072 embedding1536. 1 \<le> k \<and> k \<le> 5
            \<and> embeddings_embedQuery w k text = Inr embedding3072
            \<and> videoEmbeddings_embedQuery w k text = Inr embedding1536
            \<and> embeddingCounter s' = embeddingCounter s + 1
            \<and> info_embeddingId info = ''emb_'' @ show_nat (embeddingCounter s')
            \<and> (\<forall>c. c \<noteq> embeddingCounter s' \<longrightarrow> ''emb_'' @ show_nat c \<noteq> info_embeddingId info)
            \<and> embeddingCache s' =
                 (embeddingCache s)(info_embeddingId info @ ''_3072'' \<mapsto> embedding3072,
                                    info_embeddingId info @ ''_1536'' \<mapsto> embedding1536)
            \<and> embeddingCache s' (info_embeddingId info @ ''_3072'') = Some embedding3072
            \<and> embeddingCache s' (info_embeddingId info @ ''_1536'') = Some embedding1536
            \<and> info = \<lparr>info_embeddingId = ''emb_'' @ show_nat (embeddingCounter s'),
                       info_dimensions = \<lparr>dim_books = length embedding3072,
                                          dim_videos = length embedding1536\<rparr>,
                       info_message = ''Dual embeddings generated and cached as ''
                         @ ''emb_'' @ show_nat (embeddingCounter s') @ '': ''
                         @ show_nat (length embedding3072) @ ''D for books, ''
                         @ show_nat (length embedding1536) @ ''D for videos''\<rparr>"
    if r: "r = Inr info" for info
  proof -
    from retry r0 r
    have loop: "retry_loop ?op 5 2000 (Math_random w) 1 Undefined s = (Inr info, s0, evs)"
      by (simp add: retryOperation_def)
    have "\<exists>k sk. 1 \<le> k \<and> k \<le> 5
        \<and> (embeddingCache sk = embeddingCache s \<and> embeddingCounter sk = embeddingCounter s)
        \<and> ?op k sk = (Inr info, s0)"
      by (rule retry_loop_success_from[where
            P = "\<lambda>s s1. embeddingCache s1 = embeddingCache s
                        \<and> embeddingCounter s1 = embeddingCounter s", OF _ _ _ loop])
        (auto dest: generateEmbedding_operation_failure)
    then obtain k sk where k: "1 \<le> k" "k \<le> 5"
      and same: "embeddingCache sk = embeddingCache s" "embeddingCounter sk = embeddingCounter s"
      and op: "?op k sk = (Inr info, s0)" by blast
    from op obtain e1 e2 where e1: "embeddings_embedQuery w k text = Inr e1"
      and e2: "videoEmbeddings_embedQuery w k text = Inr e2"
      by (auto simp: generateEmbedding_operation_def Let_def split: sum.splits)
    from op e1 e2 same s0 have cnt: "embeddingCounter s' = embeddingCounter s + 1"
      and cache: "embeddingCache s' =
          (embeddingCache s)((''emb_'' @ show_nat (embeddingCounter s + 1)) @ ''_3072'' \<mapsto> e1,
                             (''emb_'' @ show_nat (embeddingCounter s + 1)) @ ''_1536'' \<mapsto> e2)"
      and info: "info = \<lparr>info_embeddingId = ''emb_'' @ show_nat (embeddingCounter s + 1),
                       info_dimensions = \<lparr>dim_books = length e1, dim_videos = length e2\<rparr>,
                       info_message = ''Dual embeddings generated and cached as ''
                         @ ''emb_'' @ show_nat (embeddingCounter s + 1) @ '': ''
                         @ show_nat (length e1) @ ''D for books, ''
                         @ show_nat (length e2) @ ''D for videos''\<rparr>"
      by (auto simp: generateEmbedding_operation_def Let_def)
    have id: "info_embeddingId info = ''emb_'' @ show_nat (embeddingCounter s')"
      using info cnt by simp
    have fresh: "\<forall>c. c \<noteq> embeddingCounter s' \<longrightarrow> ''emb_'' @ show_nat c \<noteq> info_embeddingId info"
      using id show_nat_inj by auto
    have c1: "embeddingCache s' (info_embeddingId info @ ''_3072'') = Some e1"
      and c2: "embeddingCache s' (info_embeddingId info @ ''_1536'') = Some e2"
      using cache id cnt by simp_all
    have cache': "embeddingCache s' =
        (embeddingCache s)(info_embeddingId info @ ''_3072'' \<mapsto> e1,
                           info_embeddingId info @ ''_1536'' \<mapsto> e2)"
      using cache id cnt by simp
    have info': "info = \<lparr>info_embeddingId = ''emb_'' @ show_nat (embeddingCounter s'),
                       info_dimensions = \<lparr>dim_books = length e1, dim_videos = length e2\<rparr>,
                       info_message = ''Dual embeddings generated and cached as ''
                         @ ''emb_'' @ show_nat (embeddingCounter s') @ '': ''
                         @ show_nat (length e1) @ ''D for books, ''
                         @ show_nat (length e2) @ ''D for videos''\<rparr>"
      using info cnt by simp
    from k e1 e2 cnt id fresh cache' c1 c2 info' show ?thesis by blast
  qed
  from A B show ?thesis by blast
qed
theorem generateEmbedding_caches_and_returns_metadata_witness:
  "\<exists>info s'. generateEmbedding embedding_world ''pulse'' fresh_service = (Inr info, s')
     \<and> embeddingCounter s' = 1
     \<and> info_embeddingId info = ''emb_1''
     \<and> info_dimensions info = \<lparr>dim_books = 2, dim_videos = 1\<rparr>
     \<and> embeddingCache s' ''emb_1_3072'' = Some [1 / 2, 1 / 4]
     \<and> embeddingCache s' ''emb_1_1536'' = Some [1 / 2]"
proof -
  let ?op = "generateEmbedding_operation embedding_world ''pulse''"
  obtain r s' where run: "generateEmbedding embedding_world ''pulse'' fresh_service = (r, s')"
    by (cases "generateEmbedding embedding_world ''pulse'' fresh_service")
  obtain r0 s0 evs where retry:
    "retryOperation ?op (''Embedding Generation ('' @ substring ''pulse'' 0 30 @ ''...)'')
       5 2000 (Math_random embedding_world) fresh_service = (r0, s0, evs)"
    by (cases "retryOperation ?op (''Embedding Generation ('' @ substring ''pulse'' 0 30 @ ''...)'')
       5 2000 (Math_random embedding_world) fresh_service")
  with run have r0: "r0 = r" by (simp add: generateEmbedding_def)
  have first: "throws_error_object (attempt_outcome ?op fresh_service j)" if "1 \<le> j" "j < 2" for j
  proof -
    from that have "j = 1" by simp
    then show ?thesis
      by (simp add: attempt_outcome_def generateEmbedding_operation_def embedding_world_def
          throws_error_object_def)
  qed
  have second: "\<not> isl (attempt_outcome ?op fresh_service 2)"
    by (simp add: attempt_outcome_def generateEmbedding_operation_def embedding_world_def
        numeral_2_eq_2 offline_world_def)
  have "r0 = attempt_outcome ?op fresh_service 2"
    by (rule retryOperation_result(1)[OF retry first]) (simp_all add: second)
  with second r0 obtain info where r: "r = Inr info" by (cases r) auto
  note g = generateEmbedding_caches_and_returns_metadata[OF run, THEN conjunct2, rule_format, OF r]
  then obtain k e1 e2 where k: "1 \<le> k" "k \<le> 5"
    and e1: "embeddings_embedQuery embedding_world k ''pulse'' = Inr e1"
    and e2: "videoEmbeddings_embedQuery embedding_world k ''pulse'' = Inr e2"
    and cnt: "embeddingCounter s' = embeddingCounter fresh_service + 1"
    and id: "info_embeddingId info = ''emb_'' @ show_nat (embeddingCounter s')"
    and c1: "embeddingCache s' (info_embeddingId info @ ''_3072'') = Some e1"
    and c2: "embeddingCache s' (info_embeddingId info @ ''_1536'') = Some e2"
    and info: "info = \<lparr>info_embeddingId = ''emb_'' @ show_nat (embeddingCounter s'),
                       info_dimensions = \<lparr>dim_books = length e1, dim_videos = length e2\<rparr>,
                       info_message = ''Dual embeddings generated and cached as ''
                         @ ''emb_'' @ show_nat (embeddingCounter s') @ '': ''
                         @ show_nat (length e1) @ ''D for books, ''
                         @ show_nat (length e2) @ ''D for videos''\<rparr>"
    by blast
  have cnt1: "embeddingCounter s' = 1" using cnt by (simp add: fresh_service_def)
  have id1: "info_embeddingId info = ''emb_1''" using id cnt1 by (simp add: show_nat.simps)
  have v1: "e1 = [1 / 2, 1 / 4]" using e1 by (simp add: embedding_world_def split: if_splits)
  have v2: "e2 = [1 / 2]" using e2 by (simp add: embedding_world_def)
  have dims: "info_dimensions info = \<lparr>dim_books = 2, dim_videos = 1\<rparr>"
    by (subst info) (simp add: v1 v2)
  from run r cnt1 id1 dims c1 c2 v1 v2 show ?thesis by simp
qed

subsection \<open>generate\<close>

lemma extends_without_clear_refl: "extends_without_clear s s"
  by (simp add: extends_without_clear_def)

lemma extends_without_clear_trans:
  "extends_without_clear s1 s2 \<Longrightarrow> extends_without_clear s2 s3 \<Longrightarrow> extends_without_clear s1 s3"
  by (auto simp: extends_without_clear_def)

lemma appends_only_extends:
  "CacheClear \<notin> A \<Longrightarrow> appends_only A s s' \<Longrightarrow> extends_without_clear s s'"
  by (auto simp: appends_only_def extends_without_clear_def)

lemma generateEmbedding_extends:
  "extends_without_clear s (snd (generateEmbedding w text s))"
proof -
  let ?op = "generateEmbedding_operation w text"
  let ?name = "''Embedding Generation ('' @ substring text 0 30 @ ''...)''"
  obtain r0 s0 evs where retry:
    "retryOperation ?op ?name 5 2000 (Math_random w) s = (r0, s0, evs)"
    by (cases "retryOperation ?op ?name 5 2000 (Math_random w) s")
  have "extends_without_clear s s0"
  proof (rule retryOperation_relates[where P = extends_without_clear, OF _ _ _ retry])
    show "\<And>k s r s1. ?op k s = (r, s1) \<Longrightarrow> extends_without_clear s s1"
      by (auto simp: generateEmbedding_operation_def Let_def extends_without_clear_def
          split: sum.splits)
    show "\<And>s. extends_without_clear s s" by (rule extends_without_clear_refl)
    show "\<And>s1 s2 s3. extends_without_clear s1 s2 \<Longrightarrow> extends_without_clear s2 s3
        \<Longrightarrow> extends_without_clear s1 s3" by (rule extends_without_clear_trans)
  qed
  then show ?thesis using retry by (simp add: generateEmbedding_def extends_without_clear_def)
qed

lemma vectorSearch_extends:
  "extends_without_clear s (snd (vectorSearch w embeddingId limit_arg s))"
proof -
  let ?limit = "case limit_arg of None \<Rightarrow> 3 | Some l \<Rightarrow> l"
  obtain r1 s1 where tr: "vectorSearch_try w embeddingId ?limit s = (r1, s1)"
    by (cases "vectorSearch_try w embeddingId ?limit s")
  have "extends_without_clear s s1"
    using vectorSearch_try_appends[OF tr]
    by (auto split: option.splits intro: extends_without_clear_refl appends_only_extends)
  then show ?thesis using tr by (simp add: vectorSearch_state)
qed

lemma videoSearch_extends:
  "extends_without_clear s (snd (videoSearch w embeddingId limit_arg s))"
proof -
  let ?limit = "case limit_arg of None \<Rightarrow> 4 | Some l \<Rightarrow> l"
  obtain r1 s1 where tr: "videoSearch_try w embeddingId ?limit s = (r1, s1)"
    by (cases "videoSearch_try w embeddingId ?limit s")
  have "extends_without_clear s s1"
    using videoSearch_try_appends[OF tr]
    by (auto split: option.splits intro: extends_without_clear_refl appends_only_extends)
  then show ?thesis using tr by (simp add: videoSearch_state)
qed

lemma run_tool_extends: "extends_without_clear s (run_tool w call s)"
  by (cases call) (simp_all add: generateEmbedding_extends vectorSearch_extends videoSearch_extends)

lemma run_tools_extends: "extends_without_clear s (run_tools calls s)"
proof (induction calls arbitrary: s)
  case Nil
  then show ?case by (simp add: extends_without_clear_refl)
next
  case (Cons wc calls)
  obtain w call where wc: "wc = (w, call)" by (cases wc)
  have "extends_without_clear s (run_tool w call s)" by (rule run_tool_extends)
  moreover have "extends_without_clear (run_tool w call s) (run_tools calls (run_tool w call s))"
    by (rule Cons.IH)
  ultimately show ?case using wc by (auto intro: extends_without_clear_trans)
qed

text \<open>The state that \<^verbatim>\<open>generate\<close> leaves: the cleared state, then the tools of the agent run.\<close>

lemma generate_state:
  "snd (generate c q systemMessage s) =
     (case prepare_input c q systemMessage of
        Inl e \<Rightarrow> clearEmbeddingCache s
      | Inr agentInput \<Rightarrow>
          run_tools (fst (agentExecutor_invoke c agentInput)) (clearEmbeddingCache s))"
  by (simp add: generate_def generate_try_def Let_def split: sum.splits prod.splits)

text \<open>
  C7. Every \<^verbatim>\<open>generate\<close> invocation resets the cache exactly once, and before any tool
  runs: the effects it adds start with the reset and hold no other reset, and the state it
  leaves is the state after the reset with the tool invocations of the agent run applied to
  it (none when the agent executor is not reached). After the reset a lookup of any key
  finds nothing, and the counter is zero.
\<close>

theorem generate_clears_cache_once:
  "(\<exists>rest. effects (snd (generate c q systemMessage s)) = effects s @ CacheClear # rest
          \<and> CacheClear \<notin> set rest)
   \<and> snd (generate c q systemMessage s) =
       (case prepare_input c q systemMessage of
          Inl e \<Rightarrow> clearEmbeddingCache s
        | Inr agentInput \<Rightarrow>
            run_tools (fst (agentExecutor_invoke c agentInput)) (clearEmbeddingCache s))
   \<and> (\<forall>key. embeddingCache (clearEmbeddingCache s) key = None)
   \<and> embeddingCounter (clearEmbeddingCache s) = 0"
proof -
  have "\<exists>calls. snd (generate c q systemMessage s) = run_tools calls (clearEmbeddingCache s)"
  proof (cases "prepare_input c q systemMessage")
    case (Inl e)
    then have "snd (generate c q systemMessage s) = run_tools [] (clearEmbeddingCache s)"
      by (simp add: generate_state)
    then show ?thesis by blast
  next
    case (Inr agentInput)
    then show ?thesis by (auto simp: generate_state)
  qed
  then obtain calls where
    calls: "snd (generate c q systemMessage s) = run_tools calls (clearEmbeddingCache s)"
    by blast
  have "extends_without_clear (clearEmbeddingCache s) (run_tools calls (clearEmbeddingCache s))"
    by (rule run_tools_extends)
  then obtain rest where
    "effects (run_tools calls (clearEmbeddingCache s)) = effects (clearEmbeddingCache s) @ rest"
    "CacheClear \<notin> set rest"
    by (auto simp: extends_without_clear_def)
  then have "effects (snd (generate c q systemMessage s)) = effects s @ CacheClear # rest
      \<and> CacheClear \<notin> set rest"
    using calls by (simp add: clearEmbeddingCache_def)
  then have A: "\<exists>rest. effects (snd (generate c q systemMessage s)) = effects s @ CacheClear # rest
      \<and> CacheClear \<notin> set rest" by blast
  have B: "\<forall>key. embeddingCache (clearEmbeddingCache s) key = None"
    by (simp add: clearEmbeddingCache_def)
  have C: "embeddingCounter (clearEmbeddingCache s) = 0"
    by (simp add: clearEmbeddingCache_def)
  from A B C generate_state[of c q systemMessage s] show ?thesis by blast
qed









lemma pulse_question_plain: "\<not> hasMarkdownImages pulse_question"
  by (simp add: hasMarkdownImages_def pulse_question_def str_includes_def sublist_code)

lemma pulse_question_input:
  "\<exists>agentInput. prepare_input c pulse_question systemMessage = Inr agentInput"
  by (simp add: prepare_input_def pulse_question_plain Let_def)






text \<open>
  The run of the stalled agent on a service that still holds the embedding of an earlier
  question: the search with the old id finds nothing in the cleared cache and sends
  nothing; the new embedding takes the id \<open>emb_1\<close> again, after one failed attempt; the
  search with it sends one statement.
\<close>

theorem generate_clears_cache_once_witness:
  "effects (snd (generate stalled_collaborators pulse_question ''You are a nursing tutor.''
                   cached_service)) =
     effects cached_service
     @ [CacheClear,
        EmbedQuery 3072 ''pulse'', EmbedQuery 1536 ''pulse'',
        EmbedQuery 3072 ''pulse'', EmbedQuery 1536 ''pulse'',
        MatchDocuments [1 / 2, 1 / 4] 2]
   \<and> embeddingCache (clearEmbeddingCache cached_service) ''emb_1_3072'' = None
   \<and> embeddingCache (clearEmbeddingCache cached_service) ''emb_1_1536'' = None"
proof -
  let ?sys = "''You are a nursing tutor.''"
  let ?s1 = "clearEmbeddingCache cached_service"
  note g = generate_clears_cache_once[of stalled_collaborators pulse_question ?sys cached_service]
  obtain agentInput where
    inp: "prepare_input stalled_collaborators pulse_question ?sys = Inr agentInput"
    using pulse_question_input by blast
  have calls: "fst (agentExecutor_invoke stalled_collaborators agentInput) =
      [(library_world, VectorSearchCall ''emb_1'' None),
       (embedding_world, GenerateEmbeddingCall ''pulse''),
       (library_world, VectorSearchCall ''emb_1'' (Some 2))]"
    by (simp add: agentExecutor_invoke_def maxIterations_def stalled_collaborators_def
        eval_nat_numeral)
  from g inp have final: "snd (generate stalled_collaborators pulse_question ?sys cached_service) =
      run_tools [(library_world, VectorSearchCall ''emb_1'' None),
                 (embedding_world, GenerateEmbeddingCall ''pulse''),
                 (library_world, VectorSearchCall ''emb_1'' (Some 2))] ?s1"
    by (simp add: calls)
  from g have none: "embeddingCache ?s1 ''emb_1_3072'' = None"
    "embeddingCache ?s1 ''emb_1_1536'' = None" by simp_all
  text \<open>the search with the old id\<close>
  have t1: "run_tool library_world (VectorSearchCall ''emb_1'' None) ?s1 = ?s1"
    using none by (simp add: vectorSearch_state vectorSearch_try_def)
  text \<open>the new embedding\<close>
  let ?op = "generateEmbedding_operation embedding_world ''pulse''"
  let ?s2 = "?s1\<lparr>effects := effects ?s1 @ [EmbedQuery 3072 ''pulse'', EmbedQuery 1536 ''pulse'',
                                            EmbedQuery 3072 ''pulse'', EmbedQuery 1536 ''pulse''],
                  embeddingCounter := 1,
                  embeddingCache := [''emb_1_3072'' \<mapsto> [1 / 2, 1 / 4], ''emb_1_1536'' \<mapsto> [1 / 2]]\<rparr>"
  obtain r0 s0 evs where retry:
    "retryOperation ?op (''Embedding Generation ('' @ substring ''pulse'' 0 30 @ ''...)'')
       5 2000 (Math_random embedding_world) ?s1 = (r0, s0, evs)"
    by (cases "retryOperation ?op (''Embedding Generation ('' @ substring ''pulse'' 0 30 @ ''...)'')
       5 2000 (Math_random embedding_world) ?s1")
  have first: "throws_error_object (attempt_outcome ?op ?s1 j)" if "1 \<le> j" "j < 2" for j
  proof -
    from that have "j = 1" by simp
    then show ?thesis
      by (simp add: attempt_outcome_def generateEmbedding_operation_def embedding_world_def
          throws_error_object_def)
  qed
  have second: "\<not> isl (attempt_outcome ?op ?s1 2)"
    by (simp add: attempt_outcome_def generateEmbedding_operation_def embedding_world_def
        numeral_2_eq_2 offline_world_def)
  have "s0 = snd (?op 2 (state_before ?op ?s1 2))"
    by (rule retryOperation_result(2)[OF retry first]) (simp_all add: second)
  also have "\<dots> = ?s2"
    by (simp add: generateEmbedding_operation_def embedding_world_def numeral_2_eq_2
        offline_world_def clearEmbeddingCache_def show_nat.simps)
  finally have t2: "run_tool embedding_world (GenerateEmbeddingCall ''pulse'') ?s1
      = ?s2\<lparr>activity := activity ?s2 @ evs\<rparr>"
    using retry by (simp add: generateEmbedding_def)
  text \<open>the search with the new id\<close>
  let ?s3 = "?s2\<lparr>activity := activity ?s2 @ evs @ [Waiting 500]\<rparr>"
  have op1: "vectorSearch_operation library_world [1 / 2, 1 / 4] 2 1 ?s3 =
      (Inr (replicate 2 (passage ''Radial pulse.'')),
       ?s3\<lparr>effects := effects ?s3 @ [MatchDocuments [1 / 2, 1 / 4] 2]\<rparr>)"
    by (simp add: vectorSearch_operation_def library_world_def)
  have t3: "effects (snd (vectorSearch_try library_world ''emb_1'' 2
                (?s2\<lparr>activity := activity ?s2 @ evs\<rparr>))) =
      effects ?s2 @ [MatchDocuments [1 / 2, 1 / 4] 2]"
    using retryOperation_first_success[where
        operation = "vectorSearch_operation library_world [1 / 2, 1 / 4] 2"
        and s = ?s3 and N = 5, OF op1]
    by (simp add: vectorSearch_try_def split: sum.splits)
  have "effects (snd (generate stalled_collaborators pulse_question ?sys cached_service)) =
      effects ?s2 @ [MatchDocuments [1 / 2, 1 / 4] 2]"
    using final t1 t2 t3 by (simp add: vectorSearch_state)
  then show ?thesis using none by (simp add: clearEmbeddingCache_def)
qed

end
